theory Spec2Isabelle
  imports Complex_Main
begin

section \<open>Profile documents and validation results\<close>

text \<open>
  The profile schema of \<^verbatim>\<open>src/config/models.py\<close> is a family of pydantic models. A
  model is built from a parsed YAML value; the value is modelled by \<open>raw\<close>. Mappings
  have string keys and are association lists in document order (a Python dict has
  distinct keys; every definition below reads a key with \<open>map_of\<close>, and no theorem
  needs the keys to be distinct). A finite Python float is modelled by the rational
  number it denotes; NaN and the infinities are outside the model.
\<close>

datatype raw =
    RNone
  | RBool bool
  | RInt int
  | RFloat rat
  | RStr string
  | RList "raw list"
  | RDict "(string \<times> raw) list"

datatype ComparisonType = larger | smaller

datatype SigilPriority = SigilPriority_blacklist | SigilPriority_whitelist

text \<open>
  Every model class derives from pydantic's \<open>BaseModel\<close>, which keeps the set of the
  field names that the input supplied (\<open>model_fields_set\<close>). The records below extend
  \<open>BaseModel\<close> as the classes do. Field names carry the initials of their class,
  since several classes declare fields of the same name: \<open>aaf\<close> for
  AffixAspectFilterModel, \<open>afc\<close> for AffixFilterCountModel, \<open>ifm\<close> for ItemFilterModel,
  \<open>scm\<close> for SigilConditionModel, \<open>sfm\<close> for SigilFilterModel, \<open>um\<close> for UniqueModel
  and \<open>pm\<close> for ProfileModel.
\<close>

record BaseModel =
  model_fields_set :: "string set"

record AffixAspectFilterModel = BaseModel +
  aaf_name :: string
  aaf_value :: "rat option"
  aaf_comparison :: ComparisonType

type_synonym AffixFilterModel = AffixAspectFilterModel

type_synonym AspectUniqueFilterModel = AffixAspectFilterModel

record AffixFilterCountModel = BaseModel +
  afc_count :: "AffixFilterModel list"
  afc_maxCount :: int
  afc_minCount :: int
  afc_minGreaterAffixCount :: int

record ItemFilterModel = BaseModel +
  ifm_affixPool :: "AffixFilterCountModel list"
  ifm_inherentPool :: "AffixFilterCountModel list"
  ifm_itemType :: "string list"
  ifm_minGreaterAffixCount :: int
  ifm_minPower :: int

type_synonym DynamicItemFilterModel = "(string \<times> ItemFilterModel) list"

record SigilConditionModel = BaseModel +
  scm_name :: string
  scm_condition :: "string list"

record SigilFilterModel = BaseModel +
  sfm_blacklist :: "SigilConditionModel list"
  sfm_maxTier :: int
  sfm_minTier :: int
  sfm_priority :: SigilPriority
  sfm_whitelist :: "SigilConditionModel list"

record UniqueModel = BaseModel +
  um_affix :: "AffixFilterModel list"
  um_aspect :: "AspectUniqueFilterModel option"
  um_itemType :: "string list"
  um_minGreaterAffixCount :: int
  um_minPower :: int

record ProfileModel = BaseModel +
  pm_name :: string
  pm_Affixes :: "DynamicItemFilterModel list"
  pm_Sigils :: "SigilFilterModel option"
  pm_Uniques :: "UniqueModel list"

text \<open>
  A pydantic \<open>ValidationError\<close> is a list of line errors; validation of a model collects
  the errors of all its fields instead of stopping at the first. A line error is
  modelled by its kind (its location is omitted, except for the key of a missing or
  forbidden field). A \<open>ValueError\<close> raised by a validator of the source carries its
  message: the literal text and the interpolated values of the f-string, a list by its
  elements.
\<close>

datatype piece =
    Text string
  | Repr_names "string list"
  | Repr_conditions "SigilConditionModel list"

datatype error =
    missing string
  | extra_forbidden string
  | string_type
  | int_type
  | float_type
  | enum_type
  | list_type
  | dict_type
  | model_type
  | value_error "piece list"
  | KeyError string

type_synonym 'a result = "error list + 'a"

text \<open>
  What the schema takes from outside \<^verbatim>\<open>models.py\<close>: the three dictionaries of the
  \<open>Dataloader\<close> (only their keys are read), the values of the \<open>ItemType\<close> enum, and
  pydantic's lax conversions of a value that is not already of the field's type (an
  int given as a string, a float given as an int, and so on).
\<close>

record env =
  affix_dict :: "string \<rightharpoonup> string"
  aspect_unique_dict :: "string \<rightharpoonup> string"
  affix_sigil_dict :: "string \<rightharpoonup> string"
  ItemType :: "string list"
  lax_int :: "raw \<Rightarrow> int option"
  lax_float :: "raw \<Rightarrow> rat option"

definition sys_maxsize :: int where
  \<comment> \<open>\<open>sys.maxsize\<close> of 64-bit CPython\<close>
  "sys_maxsize = 2 ^ 63 - 1"

subsection \<open>Collecting errors\<close>

text \<open>
  Validation of a model from a mapping visits the declared fields in their order. A
  field whose key is present is validated, by its type and then by the validators of
  the source; a field whose key is absent takes its default, which is not validated,
  or is reported missing when it has none. Every key that is no field is then
  reported, since all models forbid extra keys. The model exists only when no error
  was collected; the validators of the whole model (\<open>mode="after"\<close>) run on it then.
\<close>

definition ap :: "('a \<Rightarrow> 'b) result \<Rightarrow> 'a result \<Rightarrow> 'b result" where
  "ap rf rx =
     (case rf of
        Inr f \<Rightarrow> (case rx of Inr x \<Rightarrow> Inr (f x) | Inl e \<Rightarrow> Inl e)
      | Inl e1 \<Rightarrow> (case rx of Inr x \<Rightarrow> Inl e1 | Inl e2 \<Rightarrow> Inl (e1 @ e2)))"

definition and_then :: "'a result \<Rightarrow> ('a \<Rightarrow> 'b result) \<Rightarrow> 'b result" where
  "and_then r f = (case r of Inl e \<Rightarrow> Inl e | Inr x \<Rightarrow> f x)"

fun collect :: "'a result list \<Rightarrow> 'a list result" where
  "collect [] = Inr []"
| "collect (r # rs) = ap (ap (Inr (#)) r) (collect rs)"

definition optional :: "(string \<times> raw) list \<Rightarrow> string \<Rightarrow> (raw \<Rightarrow> 'a result) \<Rightarrow> 'a \<Rightarrow> 'a result" where
  \<comment> \<open>a field with a default: the default is taken as it is, not validated\<close>
  "optional kvs k validate dflt = (case map_of kvs k of None \<Rightarrow> Inr dflt | Some r \<Rightarrow> validate r)"

definition required :: "(string \<times> raw) list \<Rightarrow> string \<Rightarrow> (raw \<Rightarrow> 'a result) \<Rightarrow> 'a result" where
  "required kvs k validate = (case map_of kvs k of None \<Rightarrow> Inl [missing k] | Some r \<Rightarrow> validate r)"

definition extra_forbid :: "string list \<Rightarrow> (string \<times> raw) list \<Rightarrow> 'a result \<Rightarrow> 'a result" where
  \<comment> \<open>\<open>ConfigDict(extra="forbid")\<close>\<close>
  "extra_forbid names kvs r =
     (let extras = map extra_forbidden (filter (\<lambda>k. k \<notin> set names) (map fst kvs))
      in case r of
           Inl e \<Rightarrow> Inl (e @ extras)
         | Inr v \<Rightarrow> if extras = [] then Inr v else Inl extras)"

definition fields_set_of :: "string list \<Rightarrow> (string \<times> raw) list \<Rightarrow> string set" where
  "fields_set_of names kvs = set (filter (\<lambda>k. map_of kvs k \<noteq> None) names)"

subsection \<open>Validation of scalar and list types\<close>

text \<open>
  A value of the field's own type is accepted as it is; for an int or float field any
  other value is left to the lax conversions of the environment. A str field accepts
  strings only, an enum field the string values of its members, a list field lists
  only. A validated \<open>ItemType\<close> is identified with its string value.
\<close>

fun pyd_str :: "raw \<Rightarrow> string result" where
  "pyd_str (RStr s) = Inr s"
| "pyd_str r = Inl [string_type]"

fun pyd_int :: "env \<Rightarrow> raw \<Rightarrow> int result" where
  "pyd_int E (RInt i) = Inr i"
| "pyd_int E r = (case lax_int E r of Some i \<Rightarrow> Inr i | None \<Rightarrow> Inl [int_type])"

fun pyd_float :: "env \<Rightarrow> raw \<Rightarrow> rat result" where
  "pyd_float E (RFloat f) = Inr f"
| "pyd_float E r = (case lax_float E r of Some f \<Rightarrow> Inr f | None \<Rightarrow> Inl [float_type])"

fun nullable :: "(raw \<Rightarrow> 'a result) \<Rightarrow> raw \<Rightarrow> 'a option result" where
  "nullable validate RNone = Inr None"
| "nullable validate r = ap (Inr Some) (validate r)"

fun pyd_list :: "(raw \<Rightarrow> 'a result) \<Rightarrow> raw \<Rightarrow> 'a list result" where
  "pyd_list validate (RList xs) = collect (map validate xs)"
| "pyd_list validate r = Inl [list_type]"

fun pyd_ComparisonType :: "raw \<Rightarrow> ComparisonType result" where
  "pyd_ComparisonType (RStr s) =
     (if s = ''larger'' then Inr larger
      else if s = ''smaller'' then Inr smaller
      else Inl [enum_type])"
| "pyd_ComparisonType r = Inl [enum_type]"

fun pyd_SigilPriority :: "raw \<Rightarrow> SigilPriority result" where
  "pyd_SigilPriority (RStr s) =
     (if s = ''blacklist'' then Inr SigilPriority_blacklist
      else if s = ''whitelist'' then Inr SigilPriority_whitelist
      else Inl [enum_type])"
| "pyd_SigilPriority r = Inl [enum_type]"

fun pyd_ItemType :: "env \<Rightarrow> raw \<Rightarrow> string result" where
  "pyd_ItemType E (RStr s) = (if s \<in> set (ItemType E) then Inr s else Inl [enum_type])"
| "pyd_ItemType E r = Inl [enum_type]"


section \<open>The models of \<^verbatim>\<open>src/config/models.py\<close>\<close>

definition check_greater_than_zero :: "int \<Rightarrow> int result" where
  \<comment> \<open>Modelled from the spec: \<open>check_greater_than_zero\<close> of \<^verbatim>\<open>src/config/helper.py\<close> is
      missing from the sources. The spec gives its domain (power \<open>\<ge> 0\<close>,
      \<open>0 \<le> minCount\<close>): a negative value is refused, any other is returned. The text
      of its message is not given and is left empty.\<close>
  "check_greater_than_zero v = (if v < 0 then Inl [value_error []] else Inr v)"

definition parse_item_type :: "raw \<Rightarrow> raw" where
  \<comment> \<open>\<open>_parse_item_type\<close>\<close>
  "parse_item_type data = (case data of RStr s \<Rightarrow> RList [RStr s] | _ \<Rightarrow> data)"

subsection \<open>AffixAspectFilterModel, AffixFilterModel, AspectUniqueFilterModel\<close>

fun AffixAspectFilterModel_parse_data :: "raw \<Rightarrow> (string \<times> raw) list result" where
  "AffixAspectFilterModel_parse_data (RDict kvs) = Inr kvs"
| "AffixAspectFilterModel_parse_data (RStr s) = Inr [(''name'', RStr s)]"
| "AffixAspectFilterModel_parse_data (RList xs) =
     (if xs = [] \<or> length xs > 3
      then Inl [value_error [Text ''list, cannot be empty or larger than 3 items'']]
      else Inr ((if length xs \<ge> 1 then [(''name'', xs ! 0)] else [])
              @ (if length xs \<ge> 2 then [(''value'', xs ! 1)] else [])
              @ (if length xs = 3 then [(''comparison'', xs ! 2)] else [])))"
| "AffixAspectFilterModel_parse_data r = Inl [value_error [Text ''must be str or list'']]"

definition AffixAspectFilterModel_fields ::
  "env \<Rightarrow> (string \<Rightarrow> string result) \<Rightarrow> (string \<times> raw) list \<Rightarrow> AffixAspectFilterModel result" where
  \<comment> \<open>the declared fields; \<open>name_validator\<close> is the subclass's validator of \<open>name\<close>\<close>
  "AffixAspectFilterModel_fields E name_validator kvs =
     extra_forbid [''name'', ''value'', ''comparison''] kvs
       (ap (ap (ap (Inr (\<lambda>n v c.
             \<lparr>model_fields_set = fields_set_of [''name'', ''value'', ''comparison''] kvs,
              aaf_name = n, aaf_value = v, aaf_comparison = c\<rparr>))
           (required kvs ''name'' (\<lambda>r. and_then (pyd_str r) name_validator)))
           (optional kvs ''value'' (nullable (pyd_float E)) None))
           (optional kvs ''comparison'' pyd_ComparisonType larger))"

definition AffixFilterModel_name_must_exist :: "env \<Rightarrow> string \<Rightarrow> string result" where
  "AffixFilterModel_name_must_exist E name =
     (if affix_dict E name = None
      then Inl [value_error [Text (''affix '' @ name @ '' does not exist'')]]
      else Inr name)"

definition AspectUniqueFilterModel_name_must_exist :: "env \<Rightarrow> string \<Rightarrow> string result" where
  "AspectUniqueFilterModel_name_must_exist E name =
     (if aspect_unique_dict E name = None
      then Inl [value_error [Text (''affix '' @ name @ '' does not exist'')]]
      else Inr name)"

definition validate_AffixFilterModel :: "env \<Rightarrow> raw \<Rightarrow> AffixFilterModel result" where
  "validate_AffixFilterModel E data =
     and_then (AffixAspectFilterModel_parse_data data)
       (AffixAspectFilterModel_fields E (AffixFilterModel_name_must_exist E))"

definition validate_AspectUniqueFilterModel :: "env \<Rightarrow> raw \<Rightarrow> AspectUniqueFilterModel result" where
  "validate_AspectUniqueFilterModel E data =
     and_then (AffixAspectFilterModel_parse_data data)
       (AffixAspectFilterModel_fields E (AspectUniqueFilterModel_name_must_exist E))"

subsection \<open>AffixFilterCountModel\<close>

definition AffixFilterCountModel_count_validator :: "int \<Rightarrow> int result" where
  "AffixFilterCountModel_count_validator v = check_greater_than_zero v"

definition set_remove :: "string \<Rightarrow> string set \<Rightarrow> string set result" where
  \<comment> \<open>\<open>set.remove\<close> raises \<open>KeyError\<close> on an absent element\<close>
  "set_remove k s = (if k \<in> s then Inr (s - {k}) else Inl [KeyError k])"

definition AffixFilterCountModel_model_validator :: "AffixFilterCountModel \<Rightarrow> AffixFilterCountModel result" where
  \<comment> \<open>an assignment to a field adds its name to \<open>model_fields_set\<close>\<close>
  "AffixFilterCountModel_model_validator self =
     and_then
       (if ''minCount'' \<notin> model_fields_set self \<and> ''maxCount'' \<notin> model_fields_set self
        then
          (let self1 = self\<lparr>afc_minCount := int (length (afc_count self)),
                            model_fields_set := insert ''minCount'' (model_fields_set self)\<rparr>;
               self2 = self1\<lparr>afc_maxCount := int (length (afc_count self1)),
                             model_fields_set := insert ''maxCount'' (model_fields_set self1)\<rparr>
           in and_then (set_remove ''minCount'' (model_fields_set self2)) (\<lambda>s3.
              and_then (set_remove ''maxCount'' s3) (\<lambda>s4.
              Inr (self2\<lparr>model_fields_set := s4\<rparr>))))
        else Inr self)
       (\<lambda>self.
          if afc_minCount self > afc_maxCount self
          then Inl [value_error [Text ''minCount must be smaller than maxCount'']]
          else if afc_count self = []
          then Inl [value_error [Text ''count must not be empty'']]
          else Inr self)"

definition AffixFilterCountModel_fields :: "env \<Rightarrow> (string \<times> raw) list \<Rightarrow> AffixFilterCountModel result" where
  "AffixFilterCountModel_fields E kvs =
     extra_forbid [''count'', ''maxCount'', ''minCount'', ''minGreaterAffixCount''] kvs
       (ap (ap (ap (ap (Inr (\<lambda>c mx mn g.
             \<lparr>model_fields_set =
                fields_set_of [''count'', ''maxCount'', ''minCount'', ''minGreaterAffixCount''] kvs,
              afc_count = c, afc_maxCount = mx, afc_minCount = mn,
              afc_minGreaterAffixCount = g\<rparr>))
           (optional kvs ''count'' (pyd_list (validate_AffixFilterModel E)) []))
           (optional kvs ''maxCount''
              (\<lambda>r. and_then (pyd_int E r) AffixFilterCountModel_count_validator) sys_maxsize))
           (optional kvs ''minCount''
              (\<lambda>r. and_then (pyd_int E r) AffixFilterCountModel_count_validator) 0))
           (optional kvs ''minGreaterAffixCount''
              (\<lambda>r. and_then (pyd_int E r) AffixFilterCountModel_count_validator) 0))"

fun validate_AffixFilterCountModel :: "env \<Rightarrow> raw \<Rightarrow> AffixFilterCountModel result" where
  "validate_AffixFilterCountModel E (RDict kvs) =
     and_then (AffixFilterCountModel_fields E kvs) AffixFilterCountModel_model_validator"
| "validate_AffixFilterCountModel E r = Inl [model_type]"

subsection \<open>ItemFilterModel and DynamicItemFilterModel\<close>

definition ItemFilterModel_check_min_power :: "int \<Rightarrow> int result" where
  "ItemFilterModel_check_min_power v = check_greater_than_zero v"

definition ItemFilterModel_min_greater_affix_in_range :: "int \<Rightarrow> int result" where
  "ItemFilterModel_min_greater_affix_in_range v =
     (if \<not> (0 \<le> v \<and> v \<le> 3) then Inl [value_error [Text ''must be in [0, 3]'']] else Inr v)"

definition ItemFilterModel_fields :: "env \<Rightarrow> (string \<times> raw) list \<Rightarrow> ItemFilterModel result" where
  "ItemFilterModel_fields E kvs =
     extra_forbid [''affixPool'', ''inherentPool'', ''itemType'', ''minGreaterAffixCount'', ''minPower''] kvs
       (ap (ap (ap (ap (ap (Inr (\<lambda>a i t g p.
             \<lparr>model_fields_set =
                fields_set_of [''affixPool'', ''inherentPool'', ''itemType'',
                               ''minGreaterAffixCount'', ''minPower''] kvs,
              ifm_affixPool = a, ifm_inherentPool = i, ifm_itemType = t,
              ifm_minGreaterAffixCount = g, ifm_minPower = p\<rparr>))
           (optional kvs ''affixPool'' (pyd_list (validate_AffixFilterCountModel E)) []))
           (optional kvs ''inherentPool'' (pyd_list (validate_AffixFilterCountModel E)) []))
           (optional kvs ''itemType'' (\<lambda>r. pyd_list (pyd_ItemType E) (parse_item_type r)) []))
           (optional kvs ''minGreaterAffixCount''
              (\<lambda>r. and_then (pyd_int E r) ItemFilterModel_min_greater_affix_in_range) 0))
           (optional kvs ''minPower''
              (\<lambda>r. and_then (pyd_int E r) ItemFilterModel_check_min_power) 0))"

fun validate_ItemFilterModel :: "env \<Rightarrow> raw \<Rightarrow> ItemFilterModel result" where
  "validate_ItemFilterModel E (RDict kvs) = ItemFilterModel_fields E kvs"
| "validate_ItemFilterModel E r = Inl [model_type]"

fun validate_DynamicItemFilterModel :: "env \<Rightarrow> raw \<Rightarrow> DynamicItemFilterModel result" where
  \<comment> \<open>\<open>RootModel[dict[str, ItemFilterModel]]\<close>\<close>
  "validate_DynamicItemFilterModel E (RDict kvs) =
     collect (map (\<lambda>(k, v). ap (Inr (Pair k)) (validate_ItemFilterModel E v)) kvs)"
| "validate_DynamicItemFilterModel E r = Inl [dict_type]"

subsection \<open>SigilConditionModel and SigilFilterModel\<close>

fun SigilConditionModel_parse_data :: "raw \<Rightarrow> (string \<times> raw) list result" where
  "SigilConditionModel_parse_data (RDict kvs) = Inr kvs"
| "SigilConditionModel_parse_data (RStr s) = Inr [(''name'', RStr s)]"
| "SigilConditionModel_parse_data (RList xs) =
     (if xs = []
      then Inl [value_error [Text ''list cannot be empty'']]
      else Inr ((if length xs \<ge> 1 then [(''name'', xs ! 0)] else [])
              @ (if length xs \<ge> 2 then [(''condition'', RList (drop 1 xs))] else [])))"
| "SigilConditionModel_parse_data r = Inl [value_error [Text ''must be str or list'']]"

definition SigilConditionModel_name_must_exist ::
  "env \<Rightarrow> ('a \<Rightarrow> string list) \<Rightarrow> 'a \<Rightarrow> 'a result" where
  \<comment> \<open>one validator for the str field \<open>name\<close> and the list field \<open>condition\<close>:
      \<open>as_names\<close> is \<open>[names_in] if isinstance(names_in, str) else names_in\<close>\<close>
  "SigilConditionModel_name_must_exist E as_names names_in =
     (let names = as_names names_in;
          errors = filter (\<lambda>name. affix_sigil_dict E name = None) names
      in if errors \<noteq> []
         then Inl [value_error [Text ''The following affixes/dungeons do not exist: '',
                                Repr_names errors]]
         else Inr names_in)"

definition SigilConditionModel_fields :: "env \<Rightarrow> (string \<times> raw) list \<Rightarrow> SigilConditionModel result" where
  "SigilConditionModel_fields E kvs =
     extra_forbid [''name'', ''condition''] kvs
       (ap (ap (Inr (\<lambda>n c.
             \<lparr>model_fields_set = fields_set_of [''name'', ''condition''] kvs,
              scm_name = n, scm_condition = c\<rparr>))
           (required kvs ''name''
              (\<lambda>r. and_then (pyd_str r) (SigilConditionModel_name_must_exist E (\<lambda>s. [s])))))
           (optional kvs ''condition''
              (\<lambda>r. and_then (pyd_list pyd_str r) (SigilConditionModel_name_must_exist E (\<lambda>l. l))) []))"

definition validate_SigilConditionModel :: "env \<Rightarrow> raw \<Rightarrow> SigilConditionModel result" where
  "validate_SigilConditionModel E data =
     and_then (SigilConditionModel_parse_data data) (SigilConditionModel_fields E)"

definition SigilConditionModel_eq :: "SigilConditionModel \<Rightarrow> SigilConditionModel \<Rightarrow> bool" where
  \<comment> \<open>\<open>BaseModel.__eq__\<close> compares the field values, not \<open>model_fields_set\<close>\<close>
  "SigilConditionModel_eq a b = (scm_name a = scm_name b \<and> scm_condition a = scm_condition b)"

definition SigilFilterModel_min_max_tier_in_range :: "int \<Rightarrow> int result" where
  "SigilFilterModel_min_max_tier_in_range v =
     (if \<not> (0 \<le> v \<and> v \<le> 100) then Inl [value_error [Text ''must be in [0, 100]'']] else Inr v)"

definition SigilFilterModel_data_integrity :: "SigilFilterModel \<Rightarrow> SigilFilterModel result" where
  "SigilFilterModel_data_integrity self =
     (let errors = filter (\<lambda>item. list_ex (SigilConditionModel_eq item) (sfm_whitelist self))
                     (sfm_blacklist self)
      in if errors \<noteq> []
         then Inl [value_error [Text ''blacklist and whitelist must not overlap: '',
                                Repr_conditions errors]]
         else if sfm_minTier self > sfm_maxTier self
         then Inl [value_error [Text ''minTier must be smaller than maxTier'']]
         else Inr self)"

definition SigilFilterModel_fields :: "env \<Rightarrow> (string \<times> raw) list \<Rightarrow> SigilFilterModel result" where
  "SigilFilterModel_fields E kvs =
     extra_forbid [''blacklist'', ''maxTier'', ''minTier'', ''priority'', ''whitelist''] kvs
       (ap (ap (ap (ap (ap (Inr (\<lambda>b mx mn p w.
             \<lparr>model_fields_set =
                fields_set_of [''blacklist'', ''maxTier'', ''minTier'', ''priority'', ''whitelist''] kvs,
              sfm_blacklist = b, sfm_maxTier = mx, sfm_minTier = mn,
              sfm_priority = p, sfm_whitelist = w\<rparr>))
           (optional kvs ''blacklist'' (pyd_list (validate_SigilConditionModel E)) []))
           (optional kvs ''maxTier''
              (\<lambda>r. and_then (pyd_int E r) SigilFilterModel_min_max_tier_in_range) sys_maxsize))
           (optional kvs ''minTier''
              (\<lambda>r. and_then (pyd_int E r) SigilFilterModel_min_max_tier_in_range) 0))
           (optional kvs ''priority'' pyd_SigilPriority SigilPriority_blacklist))
           (optional kvs ''whitelist'' (pyd_list (validate_SigilConditionModel E)) []))"

fun validate_SigilFilterModel :: "env \<Rightarrow> raw \<Rightarrow> SigilFilterModel result" where
  "validate_SigilFilterModel E (RDict kvs) =
     and_then (SigilFilterModel_fields E kvs) SigilFilterModel_data_integrity"
| "validate_SigilFilterModel E r = Inl [model_type]"

subsection \<open>UniqueModel and ProfileModel\<close>

definition UniqueModel_check_min_power :: "int \<Rightarrow> int result" where
  "UniqueModel_check_min_power v = check_greater_than_zero v"

definition UniqueModel_count_validator :: "int \<Rightarrow> int result" where
  "UniqueModel_count_validator v = check_greater_than_zero v"

definition UniqueModel_fields :: "env \<Rightarrow> (string \<times> raw) list \<Rightarrow> UniqueModel result" where
  \<comment> \<open>\<open>aspect\<close> is declared with the default \<open>None\<close>, which is outside its type: it is
      \<open>None\<close> exactly when the input has no aspect\<close>
  "UniqueModel_fields E kvs =
     extra_forbid [''affix'', ''aspect'', ''itemType'', ''minGreaterAffixCount'', ''minPower''] kvs
       (ap (ap (ap (ap (ap (Inr (\<lambda>a s t g p.
             \<lparr>model_fields_set =
                fields_set_of [''affix'', ''aspect'', ''itemType'',
                               ''minGreaterAffixCount'', ''minPower''] kvs,
              um_affix = a, um_aspect = s, um_itemType = t,
              um_minGreaterAffixCount = g, um_minPower = p\<rparr>))
           (optional kvs ''affix'' (pyd_list (validate_AffixFilterModel E)) []))
           (optional kvs ''aspect''
              (\<lambda>r. ap (Inr Some) (validate_AspectUniqueFilterModel E r)) None))
           (optional kvs ''itemType'' (\<lambda>r. pyd_list (pyd_ItemType E) (parse_item_type r)) []))
           (optional kvs ''minGreaterAffixCount''
              (\<lambda>r. and_then (pyd_int E r) UniqueModel_count_validator) 0))
           (optional kvs ''minPower''
              (\<lambda>r. and_then (pyd_int E r) UniqueModel_check_min_power) 0))"

fun validate_UniqueModel :: "env \<Rightarrow> raw \<Rightarrow> UniqueModel result" where
  "validate_UniqueModel E (RDict kvs) = UniqueModel_fields E kvs"
| "validate_UniqueModel E r = Inl [model_type]"

definition ProfileModel_fields :: "env \<Rightarrow> (string \<times> raw) list \<Rightarrow> ProfileModel result" where
  "ProfileModel_fields E kvs =
     extra_forbid [''name'', ''Affixes'', ''Sigils'', ''Uniques''] kvs
       (ap (ap (ap (ap (Inr (\<lambda>n a s u.
             \<lparr>model_fields_set = fields_set_of [''name'', ''Affixes'', ''Sigils'', ''Uniques''] kvs,
              pm_name = n, pm_Affixes = a, pm_Sigils = s, pm_Uniques = u\<rparr>))
           (required kvs ''name'' pyd_str))
           (optional kvs ''Affixes'' (pyd_list (validate_DynamicItemFilterModel E)) []))
           (optional kvs ''Sigils'' (nullable (validate_SigilFilterModel E)) None))
           (optional kvs ''Uniques'' (pyd_list (validate_UniqueModel E)) []))"

fun validate_ProfileModel :: "env \<Rightarrow> raw \<Rightarrow> ProfileModel result" where
  "validate_ProfileModel E (RDict kvs) = ProfileModel_fields E kvs"
| "validate_ProfileModel E r = Inl [model_type]"


section \<open>Serialization without the unset fields\<close>

text \<open>
  \<open>save_as_profile\<close> of \<^verbatim>\<open>src/gui/importer/common.py\<close> writes a profile with
  \<open>exclude_unset\<close> (unless the \<open>full_dump\<close> option is on): pydantic's \<open>model_dump\<close> then
  emits, for every model of the tree, exactly the fields named in its
  \<open>model_fields_set\<close>, in the order of declaration; an enum is emitted as its string
  value. The functions below are \<open>model_dump(exclude_unset=True)\<close> for each model; the
  result is the mapping that is written as YAML and read back.
\<close>

definition dump_field :: "string set \<Rightarrow> string \<Rightarrow> raw \<Rightarrow> (string \<times> raw) list" where
  "dump_field fs k v = (if k \<in> fs then [(k, v)] else [])"

fun dump_ComparisonType :: "ComparisonType \<Rightarrow> raw" where
  "dump_ComparisonType larger = RStr ''larger''"
| "dump_ComparisonType smaller = RStr ''smaller''"

fun dump_SigilPriority :: "SigilPriority \<Rightarrow> raw" where
  "dump_SigilPriority SigilPriority_blacklist = RStr ''blacklist''"
| "dump_SigilPriority SigilPriority_whitelist = RStr ''whitelist''"

definition model_dump_AffixAspectFilterModel :: "AffixAspectFilterModel \<Rightarrow> (string \<times> raw) list" where
  "model_dump_AffixAspectFilterModel m =
     dump_field (model_fields_set m) ''name'' (RStr (aaf_name m))
     @ dump_field (model_fields_set m) ''value''
         (case aaf_value m of None \<Rightarrow> RNone | Some f \<Rightarrow> RFloat f)
     @ dump_field (model_fields_set m) ''comparison'' (dump_ComparisonType (aaf_comparison m))"

definition model_dump_AffixFilterCountModel :: "AffixFilterCountModel \<Rightarrow> (string \<times> raw) list" where
  "model_dump_AffixFilterCountModel m =
     dump_field (model_fields_set m) ''count''
         (RList (map (\<lambda>a. RDict (model_dump_AffixAspectFilterModel a)) (afc_count m)))
     @ dump_field (model_fields_set m) ''maxCount'' (RInt (afc_maxCount m))
     @ dump_field (model_fields_set m) ''minCount'' (RInt (afc_minCount m))
     @ dump_field (model_fields_set m) ''minGreaterAffixCount'' (RInt (afc_minGreaterAffixCount m))"

definition model_dump_ItemFilterModel :: "ItemFilterModel \<Rightarrow> (string \<times> raw) list" where
  "model_dump_ItemFilterModel m =
     dump_field (model_fields_set m) ''affixPool''
         (RList (map (\<lambda>a. RDict (model_dump_AffixFilterCountModel a)) (ifm_affixPool m)))
     @ dump_field (model_fields_set m) ''inherentPool''
         (RList (map (\<lambda>a. RDict (model_dump_AffixFilterCountModel a)) (ifm_inherentPool m)))
     @ dump_field (model_fields_set m) ''itemType'' (RList (map RStr (ifm_itemType m)))
     @ dump_field (model_fields_set m) ''minGreaterAffixCount'' (RInt (ifm_minGreaterAffixCount m))
     @ dump_field (model_fields_set m) ''minPower'' (RInt (ifm_minPower m))"

definition model_dump_DynamicItemFilterModel :: "DynamicItemFilterModel \<Rightarrow> (string \<times> raw) list" where
  "model_dump_DynamicItemFilterModel d = map (\<lambda>(k, v). (k, RDict (model_dump_ItemFilterModel v))) d"

definition model_dump_SigilConditionModel :: "SigilConditionModel \<Rightarrow> (string \<times> raw) list" where
  "model_dump_SigilConditionModel m =
     dump_field (model_fields_set m) ''name'' (RStr (scm_name m))
     @ dump_field (model_fields_set m) ''condition'' (RList (map RStr (scm_condition m)))"

definition model_dump_SigilFilterModel :: "SigilFilterModel \<Rightarrow> (string \<times> raw) list" where
  "model_dump_SigilFilterModel m =
     dump_field (model_fields_set m) ''blacklist''
         (RList (map (\<lambda>c. RDict (model_dump_SigilConditionModel c)) (sfm_blacklist m)))
     @ dump_field (model_fields_set m) ''maxTier'' (RInt (sfm_maxTier m))
     @ dump_field (model_fields_set m) ''minTier'' (RInt (sfm_minTier m))
     @ dump_field (model_fields_set m) ''priority'' (dump_SigilPriority (sfm_priority m))
     @ dump_field (model_fields_set m) ''whitelist''
         (RList (map (\<lambda>c. RDict (model_dump_SigilConditionModel c)) (sfm_whitelist m)))"

definition model_dump_UniqueModel :: "UniqueModel \<Rightarrow> (string \<times> raw) list" where
  "model_dump_UniqueModel m =
     dump_field (model_fields_set m) ''affix''
         (RList (map (\<lambda>a. RDict (model_dump_AffixAspectFilterModel a)) (um_affix m)))
     @ dump_field (model_fields_set m) ''aspect''
         (case um_aspect m of None \<Rightarrow> RNone | Some a \<Rightarrow> RDict (model_dump_AffixAspectFilterModel a))
     @ dump_field (model_fields_set m) ''itemType'' (RList (map RStr (um_itemType m)))
     @ dump_field (model_fields_set m) ''minGreaterAffixCount'' (RInt (um_minGreaterAffixCount m))
     @ dump_field (model_fields_set m) ''minPower'' (RInt (um_minPower m))"

definition model_dump_ProfileModel :: "ProfileModel \<Rightarrow> (string \<times> raw) list" where
  "model_dump_ProfileModel m =
     dump_field (model_fields_set m) ''name'' (RStr (pm_name m))
     @ dump_field (model_fields_set m) ''Affixes''
         (RList (map (\<lambda>d. RDict (model_dump_DynamicItemFilterModel d)) (pm_Affixes m)))
     @ dump_field (model_fields_set m) ''Sigils''
         (case pm_Sigils m of None \<Rightarrow> RNone | Some s \<Rightarrow> RDict (model_dump_SigilFilterModel s))
     @ dump_field (model_fields_set m) ''Uniques''
         (RList (map (\<lambda>u. RDict (model_dump_UniqueModel u)) (pm_Uniques m)))"

definition save_as_profile_document :: "ProfileModel \<Rightarrow> (string \<times> raw) list" where
  \<comment> \<open>the mapping that \<open>save_as_profile\<close> writes after its two comment lines when
      \<open>full_dump\<close> is off: \<open>exclude_unset=True\<close> and
      \<open>exclude=["name", "Sigils", "Uniques"]\<close>\<close>
  "save_as_profile_document profile =
     filter (\<lambda>(k, v). k \<notin> set [''name'', ''Sigils'', ''Uniques''])
       (model_dump_ProfileModel profile)"

section \<open>Notions used by the properties\<close>

definition fails_with :: "'a result \<Rightarrow> error \<Rightarrow> bool" where
  \<comment> \<open>validation fails and the error is one of the line errors reported\<close>
  "fails_with r e = (case r of Inl errs \<Rightarrow> e \<in> set errs | Inr v \<Rightarrow> False)"

definition example_env :: env where
  \<comment> \<open>a small catalog for the concrete instances below; the documents used with it hold
      values of the fields' own types only, so no lax conversion takes part\<close>
  "example_env =
     \<lparr>affix_dict = [''attack_speed'' \<mapsto> ''attack speed'', ''maximum_life'' \<mapsto> ''maximum life'',
                    ''armor'' \<mapsto> ''armor''],
      aspect_unique_dict = [''tibaults_will'' \<mapsto> ''tibaults will''],
      affix_sigil_dict = [''cellars'' \<mapsto> ''cellars'', ''death_pulse'' \<mapsto> ''death pulse''],
      ItemType = [''helm'', ''ring''],
      lax_int = (\<lambda>r. None),
      lax_float = (\<lambda>r. None)\<rparr>"

section \<open>Properties of the validators\<close>

subsection \<open>Helper lemmas on error collection\<close>

lemma ap_Inr_iff: "ap rf rx = Inr y \<longleftrightarrow> (\<exists>f x. rf = Inr f \<and> rx = Inr x \<and> y = f x)"
  by (auto simp: ap_def split: sum.splits)

lemma ap_Inr_Inr [simp]: "ap (Inr f) (Inr x) = Inr (f x)"
  by (simp add: ap_def)

lemma and_then_Inr_iff: "and_then r f = Inr y \<longleftrightarrow> (\<exists>x. r = Inr x \<and> f x = Inr y)"
  by (cases r) (auto simp: and_then_def)

lemma and_then_Inr [simp]: "and_then (Inr x) f = f x"
  by (simp add: and_then_def)

lemma and_then_Inl [simp]: "and_then (Inl e) f = Inl e"
  by (simp add: and_then_def)

lemma extra_forbid_Inr_iff:
  "extra_forbid names kvs r = Inr v \<longleftrightarrow> r = Inr v \<and> fst ` set kvs \<subseteq> set names"
  by (cases r) (auto simp: extra_forbid_def Let_def filter_empty_conv)

lemma optional_Inr_iff:
  "optional kvs k validate dflt = Inr v \<longleftrightarrow>
     (map_of kvs k = None \<and> v = dflt) \<or> (\<exists>r. map_of kvs k = Some r \<and> validate r = Inr v)"
  by (auto simp: optional_def split: option.splits)

lemma required_Inr_iff:
  "required kvs k validate = Inr v \<longleftrightarrow> (\<exists>r. map_of kvs k = Some r \<and> validate r = Inr v)"
  by (auto simp: required_def split: option.splits)

lemma collect_map_Inr_iff:
  "collect (map f xs) = Inr ys \<longleftrightarrow> list_all2 (\<lambda>x y. f x = Inr y) xs ys"
proof (induction xs arbitrary: ys)
  case Nil
  then show ?case by auto
next
  case (Cons x xs)
  show ?case
    by (cases ys) (auto simp: ap_Inr_iff Cons.IH)
qed

lemma fails_with_Inl [simp]: "fails_with (Inl errs) e \<longleftrightarrow> e \<in> set errs"
  by (simp add: fails_with_def)

lemma fails_with_Inr [simp]: "\<not> fails_with (Inr v) e"
  by (simp add: fails_with_def)

lemma fails_with_ap_right: "fails_with rx e \<Longrightarrow> fails_with (ap rf rx) e"
  by (cases rf; cases rx) (auto simp: ap_def)

lemma fails_with_ap_left: "fails_with rf e \<Longrightarrow> fails_with (ap rf rx) e"
  by (cases rf; cases rx) (auto simp: ap_def)

lemma fails_with_extra_forbid: "fails_with r e \<Longrightarrow> fails_with (extra_forbid names kvs r) e"
  by (cases r) (auto simp: extra_forbid_def Let_def)

lemma fails_with_collect:
  "r \<in> set rs \<Longrightarrow> fails_with r e \<Longrightarrow> fails_with (collect rs) e"
proof (induction rs)
  case Nil
  then show ?case by simp
next
  case (Cons a rs)
  then show ?case
    by (auto intro: fails_with_ap_right fails_with_ap_left)
qed

subsection \<open>What a validated model records about its input\<close>

lemma AffixAspectFilterModel_fields_Inr:
  assumes "AffixAspectFilterModel_fields E nv kvs = Inr m"
  shows "model_fields_set m = fields_set_of [''name'', ''value'', ''comparison''] kvs"
    and "required kvs ''name'' (\<lambda>r. and_then (pyd_str r) nv) = Inr (aaf_name m)"
    and "optional kvs ''value'' (nullable (pyd_float E)) None = Inr (aaf_value m)"
    and "optional kvs ''comparison'' pyd_ComparisonType larger = Inr (aaf_comparison m)"
    and "fst ` set kvs \<subseteq> {''name'', ''value'', ''comparison''}"
  using assms
  by (auto simp: AffixAspectFilterModel_fields_def extra_forbid_Inr_iff ap_Inr_iff)

lemma AffixAspectFilterModel_fields_default_comparison:
  assumes "AffixAspectFilterModel_fields E nv kvs = Inr m" and "map_of kvs ''comparison'' = None"
  shows "aaf_comparison m = larger"
  using AffixAspectFilterModel_fields_Inr(4) [OF assms(1)] assms(2)
  by (simp add: optional_def)

lemma AffixAspectFilterModel_fields_bad_name:
  assumes "map_of kvs ''name'' = Some (RStr n)" and "nv n = Inl [e]"
  shows "fails_with (AffixAspectFilterModel_fields E nv kvs) e"
  unfolding AffixAspectFilterModel_fields_def
  by (intro fails_with_extra_forbid fails_with_ap_left fails_with_ap_right)
     (simp add: required_def assms)

lemma AffixAspectFilterModel_parse_data_no_comparison:
  assumes "AffixAspectFilterModel_parse_data data = Inr kvs"
    and "(\<exists>s. data = RStr s) \<or> (\<exists>xs. data = RList xs \<and> length xs \<le> 2)
         \<or> (\<exists>kvs. data = RDict kvs \<and> map_of kvs ''comparison'' = None)"
  shows "map_of kvs ''comparison'' = None"
  using assms by (auto split: if_splits)

lemma SigilConditionModel_fields_bad_name:
  assumes "map_of kvs ''name'' = Some (RStr n)"
    and "SigilConditionModel_name_must_exist E (\<lambda>s. [s]) n = Inl [e]"
  shows "fails_with (SigilConditionModel_fields E kvs) e"
  unfolding SigilConditionModel_fields_def
  by (intro fails_with_extra_forbid fails_with_ap_left fails_with_ap_right)
     (simp add: required_def assms)

lemma collect_pyd_str [simp]: "collect (map (pyd_str \<circ> RStr) cs) = Inr cs"
  by (simp add: collect_map_Inr_iff list_all2_conv_all_nth)

lemma SigilConditionModel_fields_bad_condition:
  assumes "map_of kvs ''condition'' = Some (RList (map RStr cs))"
    and "\<exists>c \<in> set cs. affix_sigil_dict E c = None"
  shows "fails_with (SigilConditionModel_fields E kvs)
           (value_error [Text ''The following affixes/dungeons do not exist: '',
                         Repr_names (filter (\<lambda>c. affix_sigil_dict E c = None) cs)])"
proof -
  from assms(2) have "filter (\<lambda>c. affix_sigil_dict E c = None) cs \<noteq> []"
    by (simp add: filter_empty_conv)
  then have "fails_with
      (optional kvs ''condition''
         (\<lambda>r. and_then (pyd_list pyd_str r) (SigilConditionModel_name_must_exist E (\<lambda>l. l))) [])
      (value_error [Text ''The following affixes/dungeons do not exist: '',
                    Repr_names (filter (\<lambda>c. affix_sigil_dict E c = None) cs)])"
    by (simp add: optional_def assms(1) SigilConditionModel_name_must_exist_def)
  then show ?thesis
    unfolding SigilConditionModel_fields_def
    by (intro fails_with_extra_forbid fails_with_ap_right)
qed

lemma fields_set_of_iff: "k \<in> fields_set_of names kvs \<longleftrightarrow> k \<in> set names \<and> map_of kvs k \<noteq> None"
  by (auto simp: fields_set_of_def)

lemma AffixFilterCountModel_fields_Inr:
  assumes "AffixFilterCountModel_fields E kvs = Inr m"
  shows "model_fields_set m
           = fields_set_of [''count'', ''maxCount'', ''minCount'', ''minGreaterAffixCount''] kvs"
    and "optional kvs ''count'' (pyd_list (validate_AffixFilterModel E)) [] = Inr (afc_count m)"
    and "optional kvs ''maxCount''
           (\<lambda>r. and_then (pyd_int E r) AffixFilterCountModel_count_validator) sys_maxsize
           = Inr (afc_maxCount m)"
    and "optional kvs ''minCount''
           (\<lambda>r. and_then (pyd_int E r) AffixFilterCountModel_count_validator) 0
           = Inr (afc_minCount m)"
    and "optional kvs ''minGreaterAffixCount''
           (\<lambda>r. and_then (pyd_int E r) AffixFilterCountModel_count_validator) 0
           = Inr (afc_minGreaterAffixCount m)"
    and "fst ` set kvs \<subseteq> {''count'', ''maxCount'', ''minCount'', ''minGreaterAffixCount''}"
  using assms
  by (auto simp: AffixFilterCountModel_fields_def extra_forbid_Inr_iff ap_Inr_iff)

lemma AffixFilterCountModel_model_validator_Inr:
  assumes "AffixFilterCountModel_model_validator m0 = Inr m"
  shows "model_fields_set m = model_fields_set m0"
    and "afc_count m = afc_count m0"
    and "afc_minGreaterAffixCount m = afc_minGreaterAffixCount m0"
    and "afc_count m \<noteq> []"
    and "afc_minCount m \<le> afc_maxCount m"
    and "''minCount'' \<notin> model_fields_set m0 \<and> ''maxCount'' \<notin> model_fields_set m0 \<Longrightarrow>
           afc_minCount m = int (length (afc_count m0)) \<and> afc_maxCount m = int (length (afc_count m0))"
    and "\<not> (''minCount'' \<notin> model_fields_set m0 \<and> ''maxCount'' \<notin> model_fields_set m0) \<Longrightarrow>
           afc_minCount m = afc_minCount m0 \<and> afc_maxCount m = afc_maxCount m0"
  using assms
  by (auto simp: AffixFilterCountModel_model_validator_def set_remove_def Let_def
           split: if_splits)

lemma validate_AffixFilterCountModel_Inr:
  assumes "validate_AffixFilterCountModel E data = Inr m"
  obtains kvs m0 where "data = RDict kvs" and "AffixFilterCountModel_fields E kvs = Inr m0"
    and "AffixFilterCountModel_model_validator m0 = Inr m"
  using assms by (cases data) (auto simp: and_then_Inr_iff)

lemma map_of_dump_field_append:
  "map_of (dump_field fs k v @ rest) k' = (if k' = k \<and> k \<in> fs then Some v else map_of rest k')"
  by (simp add: dump_field_def)

lemma map_of_dump_field:
  "map_of (dump_field fs k v) k' = (if k' = k \<and> k \<in> fs then Some v else None)"
  by (simp add: dump_field_def)

lemma check_greater_than_zero_Inr: "check_greater_than_zero v = Inr x \<longleftrightarrow> x = v \<and> 0 \<le> v"
  by (auto simp: check_greater_than_zero_def)

lemma AffixFilterCountModel_empty_count_fails:
  assumes "map_of kvs ''count'' = None \<or> map_of kvs ''count'' = Some (RList [])"
  shows "isl (validate_AffixFilterCountModel E (RDict kvs))"
proof (cases "validate_AffixFilterCountModel E (RDict kvs)")
  case (Inl e)
  then show ?thesis by simp
next
  case (Inr m)
  then obtain m0 where f: "AffixFilterCountModel_fields E kvs = Inr m0"
    and v: "AffixFilterCountModel_model_validator m0 = Inr m"
    by (auto simp: and_then_Inr_iff)
  from AffixFilterCountModel_fields_Inr(2) [OF f] assms have "afc_count m0 = []"
    by (auto simp: optional_def)
  with AffixFilterCountModel_model_validator_Inr(2,4) [OF v] show ?thesis by simp
qed

lemma validate_AffixFilterModel_bare_name:
  assumes "affix_dict E a \<noteq> None"
  shows "validate_AffixFilterModel E (RStr a)
           = Inr \<lparr>model_fields_set = {''name''}, aaf_name = a, aaf_value = None,
                  aaf_comparison = larger\<rparr>"
  using assms
  by (auto simp: validate_AffixFilterModel_def AffixAspectFilterModel_fields_def
        extra_forbid_def optional_def required_def fields_set_of_def
        AffixFilterModel_name_must_exist_def)


lemma SigilFilterModel_fields_Inr:
  assumes "SigilFilterModel_fields E kvs = Inr m"
  shows "model_fields_set m
           = fields_set_of [''blacklist'', ''maxTier'', ''minTier'', ''priority'', ''whitelist''] kvs"
    and "optional kvs ''blacklist'' (pyd_list (validate_SigilConditionModel E)) []
           = Inr (sfm_blacklist m)"
    and "optional kvs ''maxTier''
           (\<lambda>r. and_then (pyd_int E r) SigilFilterModel_min_max_tier_in_range) sys_maxsize
           = Inr (sfm_maxTier m)"
    and "optional kvs ''minTier''
           (\<lambda>r. and_then (pyd_int E r) SigilFilterModel_min_max_tier_in_range) 0
           = Inr (sfm_minTier m)"
    and "optional kvs ''priority'' pyd_SigilPriority SigilPriority_blacklist = Inr (sfm_priority m)"
    and "optional kvs ''whitelist'' (pyd_list (validate_SigilConditionModel E)) []
           = Inr (sfm_whitelist m)"
    and "fst ` set kvs \<subseteq> {''blacklist'', ''maxTier'', ''minTier'', ''priority'', ''whitelist''}"
  using assms
  by (auto simp: SigilFilterModel_fields_def extra_forbid_Inr_iff ap_Inr_iff)

lemma SigilFilterModel_data_integrity_Inr:
  "SigilFilterModel_data_integrity self = Inr m \<longleftrightarrow>
     m = self
     \<and> (\<forall>b \<in> set (sfm_blacklist self). \<forall>w \<in> set (sfm_whitelist self). \<not> SigilConditionModel_eq b w)
     \<and> sfm_minTier self \<le> sfm_maxTier self"
  by (auto simp: SigilFilterModel_data_integrity_def Let_def filter_empty_conv list_ex_iff)

lemma validate_SigilFilterModel_Inr:
  assumes "validate_SigilFilterModel E data = Inr m"
  obtains kvs where "data = RDict kvs" and "SigilFilterModel_fields E kvs = Inr m"
    and "SigilFilterModel_data_integrity m = Inr m"
  using assms by (cases data) (auto simp: and_then_Inr_iff SigilFilterModel_data_integrity_Inr)

lemma SigilFilterModel_min_max_tier_in_range_Inr:
  "SigilFilterModel_min_max_tier_in_range v = Inr x \<longleftrightarrow> x = v \<and> 0 \<le> v \<and> v \<le> 100"
  by (auto simp: SigilFilterModel_min_max_tier_in_range_def)

lemma ItemFilterModel_min_greater_affix_in_range_Inr:
  "ItemFilterModel_min_greater_affix_in_range v = Inr x \<longleftrightarrow> x = v \<and> 0 \<le> v \<and> v \<le> 3"
  by (auto simp: ItemFilterModel_min_greater_affix_in_range_def)

lemma ItemFilterModel_fields_Inr:
  assumes "ItemFilterModel_fields E kvs = Inr m"
  shows "model_fields_set m
           = fields_set_of [''affixPool'', ''inherentPool'', ''itemType'',
                            ''minGreaterAffixCount'', ''minPower''] kvs"
    and "optional kvs ''affixPool'' (pyd_list (validate_AffixFilterCountModel E)) []
           = Inr (ifm_affixPool m)"
    and "optional kvs ''inherentPool'' (pyd_list (validate_AffixFilterCountModel E)) []
           = Inr (ifm_inherentPool m)"
    and "optional kvs ''itemType'' (\<lambda>r. pyd_list (pyd_ItemType E) (parse_item_type r)) []
           = Inr (ifm_itemType m)"
    and "optional kvs ''minGreaterAffixCount''
           (\<lambda>r. and_then (pyd_int E r) ItemFilterModel_min_greater_affix_in_range) 0
           = Inr (ifm_minGreaterAffixCount m)"
    and "optional kvs ''minPower''
           (\<lambda>r. and_then (pyd_int E r) ItemFilterModel_check_min_power) 0
           = Inr (ifm_minPower m)"
    and "fst ` set kvs \<subseteq> {''affixPool'', ''inherentPool'', ''itemType'',
                            ''minGreaterAffixCount'', ''minPower''}"
  using assms
  by (auto simp: ItemFilterModel_fields_def extra_forbid_Inr_iff ap_Inr_iff)

lemma UniqueModel_fields_Inr:
  assumes "UniqueModel_fields E kvs = Inr m"
  shows "model_fields_set m
           = fields_set_of [''affix'', ''aspect'', ''itemType'',
                            ''minGreaterAffixCount'', ''minPower''] kvs"
    and "optional kvs ''affix'' (pyd_list (validate_AffixFilterModel E)) [] = Inr (um_affix m)"
    and "optional kvs ''aspect''
           (\<lambda>r. ap (Inr Some) (validate_AspectUniqueFilterModel E r)) None = Inr (um_aspect m)"
    and "optional kvs ''itemType'' (\<lambda>r. pyd_list (pyd_ItemType E) (parse_item_type r)) []
           = Inr (um_itemType m)"
    and "optional kvs ''minGreaterAffixCount''
           (\<lambda>r. and_then (pyd_int E r) UniqueModel_count_validator) 0
           = Inr (um_minGreaterAffixCount m)"
    and "optional kvs ''minPower''
           (\<lambda>r. and_then (pyd_int E r) UniqueModel_check_min_power) 0
           = Inr (um_minPower m)"
    and "fst ` set kvs \<subseteq> {''affix'', ''aspect'', ''itemType'',
                            ''minGreaterAffixCount'', ''minPower''}"
  using assms
  by (auto simp: UniqueModel_fields_def extra_forbid_Inr_iff ap_Inr_iff)

lemma ProfileModel_fields_Inr:
  assumes "ProfileModel_fields E kvs = Inr m"
  shows "model_fields_set m = fields_set_of [''name'', ''Affixes'', ''Sigils'', ''Uniques''] kvs"
    and "required kvs ''name'' pyd_str = Inr (pm_name m)"
    and "optional kvs ''Affixes'' (pyd_list (validate_DynamicItemFilterModel E)) []
           = Inr (pm_Affixes m)"
    and "optional kvs ''Sigils'' (nullable (validate_SigilFilterModel E)) None = Inr (pm_Sigils m)"
    and "optional kvs ''Uniques'' (pyd_list (validate_UniqueModel E)) [] = Inr (pm_Uniques m)"
    and "fst ` set kvs \<subseteq> {''name'', ''Affixes'', ''Sigils'', ''Uniques''}"
  using assms
  by (auto simp: ProfileModel_fields_def extra_forbid_Inr_iff ap_Inr_iff)

lemma optional_int_field:
  assumes "optional kvs k (\<lambda>r. and_then (pyd_int E r) check) dflt = Inr x"
  shows "(map_of kvs k = None \<and> x = dflt) \<or> (map_of kvs k \<noteq> None \<and> (\<exists>v. check v = Inr x))"
  using assms by (auto simp: optional_Inr_iff and_then_Inr_iff)

lemma fails_with_optional_int:
  assumes "map_of kvs k = Some (RInt v)" and "check v = Inl [e]"
  shows "fails_with (optional kvs k (\<lambda>r. and_then (pyd_int E r) check) dflt) e"
  using assms by (simp add: optional_def)

subsection \<open>Validating what was dumped\<close>

lemma optional_roundtrip:
  assumes "optional kvs k validate dflt = Inr x"
    and "map_of kvs' k = (if map_of kvs k = None then None else Some (d x))"
    and "\<And>r. validate r = Inr x \<Longrightarrow> validate (d x) = Inr x"
  shows "optional kvs' k validate dflt = Inr x"
  using assms by (auto simp: optional_def split: option.splits)

lemma required_roundtrip:
  assumes "required kvs k validate = Inr x"
    and "map_of kvs' k = (if map_of kvs k = None then None else Some (d x))"
    and "\<And>r. validate r = Inr x \<Longrightarrow> validate (d x) = Inr x"
  shows "required kvs' k validate = Inr x"
  using assms by (auto simp: required_def split: option.splits)

lemma fields_set_of_roundtrip:
  assumes "\<And>k. k \<in> set names \<Longrightarrow> (map_of kvs' k = None) = (map_of kvs k = None)"
  shows "fields_set_of names kvs' = fields_set_of names kvs"
proof (rule set_eqI)
  fix k
  show "k \<in> fields_set_of names kvs' \<longleftrightarrow> k \<in> fields_set_of names kvs"
    by (cases "k \<in> set names") (simp_all add: fields_set_of_iff assms)
qed

lemma list_all2_roundtrip:
  assumes "list_all2 P rs xs" and "\<And>r x. P r x \<Longrightarrow> P (d x) x"
  shows "list_all2 P (map d xs) xs"
  using assms by (induction rule: list_all2_induct) auto

lemma pyd_list_roundtrip:
  assumes "pyd_list validate r = Inr xs"
    and "\<And>r' x. validate r' = Inr x \<Longrightarrow> validate (d x) = Inr x"
  shows "pyd_list validate (RList (map d xs)) = Inr xs"
proof -
  from assms(1) obtain rs where "list_all2 (\<lambda>r y. validate r = Inr y) rs xs"
    by (cases r) (auto simp: collect_map_Inr_iff)
  then have "list_all2 (\<lambda>r y. validate r = Inr y) (map d xs) xs"
    by (rule list_all2_roundtrip) (rule assms(2))
  then show ?thesis
    by (simp add: collect_map_Inr_iff list_all2_map1)
qed

lemma int_field_roundtrip:
  assumes "and_then (pyd_int E r) check = Inr x" and "\<And>v. check v = Inr x \<Longrightarrow> check x = Inr x"
  shows "and_then (pyd_int E (RInt x)) check = Inr x"
  using assms by (auto simp: and_then_Inr_iff)

lemma str_field_roundtrip:
  assumes "and_then (pyd_str r) check = Inr x" and "\<And>s. check s = Inr x \<Longrightarrow> check x = Inr x"
  shows "and_then (pyd_str (RStr x)) check = Inr x"
  using assms by (auto simp: and_then_Inr_iff)


lemma ItemType_field_roundtrip:
  assumes "pyd_list (pyd_ItemType E) (parse_item_type r) = Inr ts"
  shows "pyd_list (pyd_ItemType E) (parse_item_type (RList (map RStr ts))) = Inr ts"
proof -
  have "pyd_ItemType E (RStr x) = Inr x" if "pyd_ItemType E r' = Inr x" for r' x
    using that by (cases r') (auto split: if_splits)
  with assms have "pyd_list (pyd_ItemType E) (RList (map RStr ts)) = Inr ts"
    by (rule pyd_list_roundtrip)
  then show ?thesis
    by (simp add: parse_item_type_def)
qed

lemma pyd_ComparisonType_roundtrip:
  "pyd_ComparisonType r = Inr c \<Longrightarrow> pyd_ComparisonType (dump_ComparisonType c) = Inr c"
  by (cases c) simp_all


lemma nullable_float_roundtrip:
  "nullable (pyd_float E) r = Inr v \<Longrightarrow>
   nullable (pyd_float E) (case v of None \<Rightarrow> RNone | Some f \<Rightarrow> RFloat f) = Inr v"
  by (cases v) simp_all

lemma check_greater_than_zero_idem:
  "check_greater_than_zero v = Inr x \<Longrightarrow> check_greater_than_zero x = Inr x"
  by (auto simp: check_greater_than_zero_def split: if_splits)

lemma AffixAspectFilterModel_fields_roundtrip:
  assumes f: "AffixAspectFilterModel_fields E nv kvs = Inr m"
    and nv: "\<And>s x. nv s = Inr x \<Longrightarrow> nv x = Inr x"
  shows "AffixAspectFilterModel_fields E nv (model_dump_AffixAspectFilterModel m) = Inr m"
proof -
  let ?kvs' = "model_dump_AffixAspectFilterModel m"
  note fl = AffixAspectFilterModel_fields_Inr [OF f]
  have look: "map_of ?kvs' ''name'' = (if map_of kvs ''name'' = None then None else Some (RStr (aaf_name m)))"
    "map_of ?kvs' ''value'' = (if map_of kvs ''value'' = None then None
        else Some (case aaf_value m of None \<Rightarrow> RNone | Some f \<Rightarrow> RFloat f))"
    "map_of ?kvs' ''comparison'' = (if map_of kvs ''comparison'' = None then None
        else Some (dump_ComparisonType (aaf_comparison m)))"
    unfolding model_dump_AffixAspectFilterModel_def map_of_dump_field_append map_of_dump_field
    by (simp_all add: fl(1) fields_set_of_iff)
  have 1: "required ?kvs' ''name'' (\<lambda>r. and_then (pyd_str r) nv) = Inr (aaf_name m)"
    using fl(2) look(1) by (rule required_roundtrip) (rule str_field_roundtrip, assumption, rule nv)
  have 2: "optional ?kvs' ''value'' (nullable (pyd_float E)) None = Inr (aaf_value m)"
    using fl(3) look(2) by (rule optional_roundtrip) (rule nullable_float_roundtrip)
  have 3: "optional ?kvs' ''comparison'' pyd_ComparisonType larger = Inr (aaf_comparison m)"
    using fl(4) look(3) by (rule optional_roundtrip) (rule pyd_ComparisonType_roundtrip)
  have fs: "fields_set_of [''name'', ''value'', ''comparison''] ?kvs' = model_fields_set m"
    unfolding fl(1) by (rule fields_set_of_roundtrip) (auto simp: look split: if_splits)
  have ex: "fst ` set ?kvs' \<subseteq> set [''name'', ''value'', ''comparison'']"
    by (auto simp: model_dump_AffixAspectFilterModel_def dump_field_def)
  show ?thesis
    unfolding AffixAspectFilterModel_fields_def 1 2 3 fs
    using ex by (simp add: extra_forbid_Inr_iff)
qed

lemma validate_AffixFilterModel_roundtrip:
  assumes "validate_AffixFilterModel E r = Inr m"
  shows "validate_AffixFilterModel E (RDict (model_dump_AffixAspectFilterModel m)) = Inr m"
proof -
  from assms obtain kvs
    where "AffixAspectFilterModel_fields E (AffixFilterModel_name_must_exist E) kvs = Inr m"
    by (auto simp: validate_AffixFilterModel_def and_then_Inr_iff)
  then have "AffixAspectFilterModel_fields E (AffixFilterModel_name_must_exist E)
               (model_dump_AffixAspectFilterModel m) = Inr m"
    by (rule AffixAspectFilterModel_fields_roundtrip)
       (auto simp: AffixFilterModel_name_must_exist_def split: if_splits)
  then show ?thesis
    by (simp add: validate_AffixFilterModel_def)
qed


lemma AffixFilterCountModel_fields_roundtrip:
  assumes f: "AffixFilterCountModel_fields E kvs = Inr m"
  shows "AffixFilterCountModel_fields E (model_dump_AffixFilterCountModel m) = Inr m"
proof -
  let ?kvs' = "model_dump_AffixFilterCountModel m"
  let ?int = "\<lambda>r. and_then (pyd_int E r) AffixFilterCountModel_count_validator"
  note fl = AffixFilterCountModel_fields_Inr [OF f]
  have look:
    "map_of ?kvs' ''count'' = (if map_of kvs ''count'' = None then None
        else Some (RList (map (\<lambda>a. RDict (model_dump_AffixAspectFilterModel a)) (afc_count m))))"
    "map_of ?kvs' ''maxCount'' = (if map_of kvs ''maxCount'' = None then None
        else Some (RInt (afc_maxCount m)))"
    "map_of ?kvs' ''minCount'' = (if map_of kvs ''minCount'' = None then None
        else Some (RInt (afc_minCount m)))"
    "map_of ?kvs' ''minGreaterAffixCount'' = (if map_of kvs ''minGreaterAffixCount'' = None then None
        else Some (RInt (afc_minGreaterAffixCount m)))"
    unfolding model_dump_AffixFilterCountModel_def map_of_dump_field_append map_of_dump_field
    by (simp_all add: fl(1) fields_set_of_iff)
  have int: "?int (RInt x) = Inr x" if "?int r = Inr x" for r x
    using that
    by (rule int_field_roundtrip)
       (simp add: AffixFilterCountModel_count_validator_def check_greater_than_zero_idem)
  have 1: "optional ?kvs' ''count'' (pyd_list (validate_AffixFilterModel E)) [] = Inr (afc_count m)"
    using fl(2) look(1)
    by (rule optional_roundtrip) (erule pyd_list_roundtrip, erule validate_AffixFilterModel_roundtrip)
  have 2: "optional ?kvs' ''maxCount'' ?int sys_maxsize = Inr (afc_maxCount m)"
    using fl(3) look(2) by (rule optional_roundtrip) (rule int)
  have 3: "optional ?kvs' ''minCount'' ?int 0 = Inr (afc_minCount m)"
    using fl(4) look(3) by (rule optional_roundtrip) (rule int)
  have 4: "optional ?kvs' ''minGreaterAffixCount'' ?int 0 = Inr (afc_minGreaterAffixCount m)"
    using fl(5) look(4) by (rule optional_roundtrip) (rule int)
  have fs: "fields_set_of [''count'', ''maxCount'', ''minCount'', ''minGreaterAffixCount''] ?kvs'
              = model_fields_set m"
    unfolding fl(1) by (rule fields_set_of_roundtrip) (auto simp: look split: if_splits)
  have ex: "fst ` set ?kvs' \<subseteq> set [''count'', ''maxCount'', ''minCount'', ''minGreaterAffixCount'']"
    by (auto simp: model_dump_AffixFilterCountModel_def dump_field_def)
  show ?thesis
    unfolding AffixFilterCountModel_fields_def 1 2 3 4 fs
    using ex by (simp add: extra_forbid_Inr_iff)
qed

lemma AffixFilterCountModel_model_validator_dump:
  assumes "AffixFilterCountModel_model_validator m0 = Inr m"
  shows "model_dump_AffixFilterCountModel m = model_dump_AffixFilterCountModel m0"
proof -
  note mv = AffixFilterCountModel_model_validator_Inr [OF assms]
  show ?thesis
  proof (cases "''minCount'' \<notin> model_fields_set m0 \<and> ''maxCount'' \<notin> model_fields_set m0")
    case True
    with mv(1,2,3) show ?thesis
      by (simp add: model_dump_AffixFilterCountModel_def dump_field_def)
  next
    case False
    with mv(1,2,3) mv(7) [OF False] show ?thesis
      by (simp add: model_dump_AffixFilterCountModel_def)
  qed
qed

lemma validate_AffixFilterCountModel_roundtrip:
  assumes "validate_AffixFilterCountModel E r = Inr m"
  shows "validate_AffixFilterCountModel E (RDict (model_dump_AffixFilterCountModel m)) = Inr m"
proof -
  from assms obtain kvs m0 where f: "AffixFilterCountModel_fields E kvs = Inr m0"
    and v: "AffixFilterCountModel_model_validator m0 = Inr m"
    by (rule validate_AffixFilterCountModel_Inr)
  from f have "AffixFilterCountModel_fields E (model_dump_AffixFilterCountModel m0) = Inr m0"
    by (rule AffixFilterCountModel_fields_roundtrip)
  with v show ?thesis
    by (simp add: AffixFilterCountModel_model_validator_dump [OF v])
qed

lemma ItemFilterModel_fields_roundtrip:
  assumes f: "ItemFilterModel_fields E kvs = Inr m"
  shows "ItemFilterModel_fields E (model_dump_ItemFilterModel m) = Inr m"
proof -
  let ?kvs' = "model_dump_ItemFilterModel m"
  let ?pool = "pyd_list (validate_AffixFilterCountModel E)"
  let ?type = "\<lambda>r. pyd_list (pyd_ItemType E) (parse_item_type r)"
  let ?g = "\<lambda>r. and_then (pyd_int E r) ItemFilterModel_min_greater_affix_in_range"
  let ?p = "\<lambda>r. and_then (pyd_int E r) ItemFilterModel_check_min_power"
  note fl = ItemFilterModel_fields_Inr [OF f]
  have look:
    "map_of ?kvs' ''affixPool'' = (if map_of kvs ''affixPool'' = None then None
        else Some (RList (map (\<lambda>a. RDict (model_dump_AffixFilterCountModel a)) (ifm_affixPool m))))"
    "map_of ?kvs' ''inherentPool'' = (if map_of kvs ''inherentPool'' = None then None
        else Some (RList (map (\<lambda>a. RDict (model_dump_AffixFilterCountModel a)) (ifm_inherentPool m))))"
    "map_of ?kvs' ''itemType'' = (if map_of kvs ''itemType'' = None then None
        else Some (RList (map RStr (ifm_itemType m))))"
    "map_of ?kvs' ''minGreaterAffixCount'' = (if map_of kvs ''minGreaterAffixCount'' = None then None
        else Some (RInt (ifm_minGreaterAffixCount m)))"
    "map_of ?kvs' ''minPower'' = (if map_of kvs ''minPower'' = None then None
        else Some (RInt (ifm_minPower m)))"
    unfolding model_dump_ItemFilterModel_def map_of_dump_field_append map_of_dump_field
    by (simp_all add: fl(1) fields_set_of_iff)
  have pool: "?pool (RList (map (\<lambda>a. RDict (model_dump_AffixFilterCountModel a)) xs)) = Inr xs"
    if "?pool r = Inr xs" for r xs
    using that by (rule pyd_list_roundtrip) (erule validate_AffixFilterCountModel_roundtrip)
  have 1: "optional ?kvs' ''affixPool'' ?pool [] = Inr (ifm_affixPool m)"
    using fl(2) look(1) by (rule optional_roundtrip) (rule pool)
  have 2: "optional ?kvs' ''inherentPool'' ?pool [] = Inr (ifm_inherentPool m)"
    using fl(3) look(2) by (rule optional_roundtrip) (rule pool)
  have 3: "optional ?kvs' ''itemType'' ?type [] = Inr (ifm_itemType m)"
    using fl(4) look(3) by (rule optional_roundtrip) (rule ItemType_field_roundtrip)
  have 4: "optional ?kvs' ''minGreaterAffixCount'' ?g 0 = Inr (ifm_minGreaterAffixCount m)"
    using fl(5) look(4)
    by (rule optional_roundtrip)
       (erule int_field_roundtrip, simp add: ItemFilterModel_min_greater_affix_in_range_Inr)
  have 5: "optional ?kvs' ''minPower'' ?p 0 = Inr (ifm_minPower m)"
    using fl(6) look(5)
    by (rule optional_roundtrip)
       (erule int_field_roundtrip,
        simp add: ItemFilterModel_check_min_power_def check_greater_than_zero_idem)
  have fs: "fields_set_of [''affixPool'', ''inherentPool'', ''itemType'',
                           ''minGreaterAffixCount'', ''minPower''] ?kvs' = model_fields_set m"
    unfolding fl(1) by (rule fields_set_of_roundtrip) (auto simp: look split: if_splits)
  have ex: "fst ` set ?kvs' \<subseteq> set [''affixPool'', ''inherentPool'', ''itemType'',
                                      ''minGreaterAffixCount'', ''minPower'']"
    by (auto simp: model_dump_ItemFilterModel_def dump_field_def)
  show ?thesis
    unfolding ItemFilterModel_fields_def 1 2 3 4 5 fs
    using ex by (simp add: extra_forbid_Inr_iff)
qed

lemma validate_ItemFilterModel_roundtrip:
  assumes "validate_ItemFilterModel E r = Inr m"
  shows "validate_ItemFilterModel E (RDict (model_dump_ItemFilterModel m)) = Inr m"
proof -
  from assms obtain kvs where "ItemFilterModel_fields E kvs = Inr m"
    by (cases r) auto
  from ItemFilterModel_fields_roundtrip [OF this] show ?thesis
    by simp
qed

lemma validate_DynamicItemFilterModel_roundtrip:
  assumes "validate_DynamicItemFilterModel E r = Inr d"
  shows "validate_DynamicItemFilterModel E (RDict (model_dump_DynamicItemFilterModel d)) = Inr d"
proof -
  let ?P = "\<lambda>kv y. (case kv of (k, v) \<Rightarrow> ap (Inr (Pair k)) (validate_ItemFilterModel E v)) = Inr y"
  let ?dump = "\<lambda>(k, v). (k, RDict (model_dump_ItemFilterModel v))"
  from assms obtain kvs where "list_all2 ?P kvs d"
    by (cases r) (auto simp: collect_map_Inr_iff)
  then have "list_all2 ?P (map ?dump d) d"
  proof (rule list_all2_roundtrip)
    fix kv y
    assume "?P kv y"
    then obtain k v m where y: "y = (k, m)" and "validate_ItemFilterModel E v = Inr m"
      by (cases kv) (auto simp: ap_Inr_iff)
    from validate_ItemFilterModel_roundtrip [OF this(2)] y show "?P (?dump y) y"
      by simp
  qed
  then show ?thesis
    by (simp add: model_dump_DynamicItemFilterModel_def collect_map_Inr_iff list_all2_map1)
qed










lemma map_of_filter_key:
  "map_of (filter (\<lambda>(k, v). Q k) xs) k = (if Q k then map_of xs k else None)"
  by (induction xs) auto

text \<open>
  The document that \<open>save_as_profile\<close> writes names neither the profile, nor its sigil
  filter, nor its unique rules. With a name put back it validates, and to a profile
  with the same \<open>Affixes\<close>.
\<close>

lemma save_as_profile_document_reparse:
  assumes "validate_ProfileModel E document = Inr profile"
  shows "validate_ProfileModel E (RDict ((''name'', RStr n) # save_as_profile_document profile))
           = Inr \<lparr>model_fields_set = {''name''} \<union> (model_fields_set profile \<inter> {''Affixes''}),
                  pm_name = n, pm_Affixes = pm_Affixes profile,
                  pm_Sigils = None, pm_Uniques = []\<rparr>"
proof -
  let ?kvs' = "(''name'', RStr n) # save_as_profile_document profile"
  let ?affixes = "pyd_list (validate_DynamicItemFilterModel E)"
  from assms obtain kvs where f: "ProfileModel_fields E kvs = Inr profile"
    by (cases document) auto
  note fl = ProfileModel_fields_Inr [OF f]
  have look:
    "map_of ?kvs' ''name'' = Some (RStr n)"
    "map_of ?kvs' ''Affixes'' = (if map_of kvs ''Affixes'' = None then None
        else Some (RList (map (\<lambda>d. RDict (model_dump_DynamicItemFilterModel d)) (pm_Affixes profile))))"
    "map_of ?kvs' ''Sigils'' = None"
    "map_of ?kvs' ''Uniques'' = None"
    unfolding save_as_profile_document_def map_of.simps map_of_filter_key
      model_dump_ProfileModel_def map_of_dump_field_append map_of_dump_field
    by (simp_all add: fl(1) fields_set_of_iff)
  have 1: "required ?kvs' ''name'' pyd_str = Inr n"
    by (simp add: required_def look(1) del: map_of.simps)
  have 2: "optional ?kvs' ''Affixes'' ?affixes [] = Inr (pm_Affixes profile)"
    using fl(3) look(2)
    by (rule optional_roundtrip)
       (erule pyd_list_roundtrip, erule validate_DynamicItemFilterModel_roundtrip)
  have 3: "optional ?kvs' ''Sigils'' (nullable (validate_SigilFilterModel E)) None = Inr None"
    by (simp add: optional_def look(3) del: map_of.simps)
  have 4: "optional ?kvs' ''Uniques'' (pyd_list (validate_UniqueModel E)) [] = Inr []"
    by (simp add: optional_def look(4) del: map_of.simps)
  have fs: "fields_set_of [''name'', ''Affixes'', ''Sigils'', ''Uniques''] ?kvs'
              = {''name''} \<union> (model_fields_set profile \<inter> {''Affixes''})"
    unfolding fields_set_of_def filter.simps look
    by (auto simp: fl(1) fields_set_of_iff)
  have ex: "fst ` set ?kvs' \<subseteq> set [''name'', ''Affixes'', ''Sigils'', ''Uniques'']"
    by (auto simp: save_as_profile_document_def model_dump_ProfileModel_def dump_field_def)
  show ?thesis
    unfolding validate_ProfileModel.simps ProfileModel_fields_def 1 2 3 4 fs
    using ex by (simp add: extra_forbid_Inr_iff del: map_of.simps)
qed

section \<open>The claims\<close>

text \<open>
  C1. An AffixFilterCountModel that validates from a mapping with neither \<open>minCount\<close>
  nor \<open>maxCount\<close> has both equal to the length of its \<open>count\<close> list, neither name is in
  its \<open>model_fields_set\<close>, and neither key is written by the serialization that
  leaves out the unset fields. (Only a mapping validates as an AffixFilterCountModel.)
\<close>

theorem inferred_bounds_are_count_length:
  assumes "validate_AffixFilterCountModel E (RDict kvs) = Inr m"
    and "map_of kvs ''minCount'' = None" and "map_of kvs ''maxCount'' = None"
  shows "afc_minCount m = int (length (afc_count m))
       \<and> afc_maxCount m = int (length (afc_count m))
       \<and> ''minCount'' \<notin> model_fields_set m \<and> ''maxCount'' \<notin> model_fields_set m
       \<and> map_of (model_dump_AffixFilterCountModel m) ''minCount'' = None
       \<and> map_of (model_dump_AffixFilterCountModel m) ''maxCount'' = None"
proof -
  from assms(1) obtain m0 where f: "AffixFilterCountModel_fields E kvs = Inr m0"
    and v: "AffixFilterCountModel_model_validator m0 = Inr m"
    by (auto simp: and_then_Inr_iff)
  from AffixFilterCountModel_fields_Inr(1) [OF f] assms(2,3)
  have unset: "''minCount'' \<notin> model_fields_set m0 \<and> ''maxCount'' \<notin> model_fields_set m0"
    by (simp add: fields_set_of_iff)
  note mv = AffixFilterCountModel_model_validator_Inr [OF v]
  from mv(6) [OF unset] mv(2)
  have bounds: "afc_minCount m = int (length (afc_count m))"
    "afc_maxCount m = int (length (afc_count m))"
    by simp_all
  from unset mv(1)
  have fs: "''minCount'' \<notin> model_fields_set m" "''maxCount'' \<notin> model_fields_set m"
    by simp_all
  from fs have "map_of (model_dump_AffixFilterCountModel m) ''minCount'' = None"
    "map_of (model_dump_AffixFilterCountModel m) ''maxCount'' = None"
    unfolding model_dump_AffixFilterCountModel_def map_of_dump_field_append map_of_dump_field
    by simp_all
  with bounds fs show ?thesis by simp
qed

theorem inferred_bounds_are_count_length_witness:
  "validate_AffixFilterCountModel example_env
     (RDict [(''count'', RList [RStr ''armor'', RList [RStr ''maximum_life'', RFloat 700]])])
     = Inr \<lparr>model_fields_set = {''count''},
            afc_count =
              [\<lparr>model_fields_set = {''name''}, aaf_name = ''armor'', aaf_value = None,
                aaf_comparison = larger\<rparr>,
               \<lparr>model_fields_set = {''name'', ''value''}, aaf_name = ''maximum_life'',
                aaf_value = Some 700, aaf_comparison = larger\<rparr>],
            afc_maxCount = 2, afc_minCount = 2, afc_minGreaterAffixCount = 0\<rparr>
   \<and> map_of (model_dump_AffixFilterCountModel
        \<lparr>model_fields_set = {''count''},
         afc_count =
           [\<lparr>model_fields_set = {''name''}, aaf_name = ''armor'', aaf_value = None,
             aaf_comparison = larger\<rparr>,
            \<lparr>model_fields_set = {''name'', ''value''}, aaf_name = ''maximum_life'',
             aaf_value = Some 700, aaf_comparison = larger\<rparr>],
         afc_maxCount = 2, afc_minCount = 2, afc_minGreaterAffixCount = 0\<rparr>) ''minCount'' = None"
proof -
  let ?kvs = "[(''count'', RList [RStr ''armor'', RList [RStr ''maximum_life'', RFloat 700]])]"
  let ?m = "\<lparr>model_fields_set = {''count''},
             afc_count =
               [\<lparr>model_fields_set = {''name''}, aaf_name = ''armor'', aaf_value = None,
                 aaf_comparison = larger\<rparr>,
                \<lparr>model_fields_set = {''name'', ''value''}, aaf_name = ''maximum_life'',
                 aaf_value = Some 700, aaf_comparison = larger\<rparr>],
             afc_maxCount = 2, afc_minCount = 2, afc_minGreaterAffixCount = 0\<rparr>"
  have v: "validate_AffixFilterCountModel example_env (RDict ?kvs) = Inr ?m"
    by code_simp
  have n: "map_of ?kvs ''minCount'' = None" "map_of ?kvs ''maxCount'' = None"
    by simp_all
  from inferred_bounds_are_count_length [OF v n] v show ?thesis
    by blast
qed



text \<open>
  C3, as amended. A SigilFilterModel that validates has \<open>0 \<le> minTier \<le> maxTier\<close> and
  \<open>minTier \<le> 100\<close>. Its \<open>maxTier\<close> is at most 100 when the input gave one; when the
  input gave none, \<open>maxTier\<close> is the default \<open>sys.maxsize\<close>, which the range check of
  the field never sees.
\<close>

theorem sigil_tier_bounds:
  assumes "validate_SigilFilterModel E data = Inr m"
  shows "0 \<le> sfm_minTier m \<and> sfm_minTier m \<le> sfm_maxTier m \<and> sfm_minTier m \<le> 100
       \<and> (''maxTier'' \<in> model_fields_set m \<longrightarrow> sfm_maxTier m \<le> 100)
       \<and> (''maxTier'' \<notin> model_fields_set m \<longrightarrow> sfm_maxTier m = sys_maxsize)"
proof -
  from assms obtain kvs where f: "SigilFilterModel_fields E kvs = Inr m"
    and d: "SigilFilterModel_data_integrity m = Inr m"
    by (rule validate_SigilFilterModel_Inr)
  note fl = SigilFilterModel_fields_Inr [OF f]
  from d have le: "sfm_minTier m \<le> sfm_maxTier m"
    by (simp add: SigilFilterModel_data_integrity_Inr)
  from optional_int_field [OF fl(4)]
  have mn: "0 \<le> sfm_minTier m \<and> sfm_minTier m \<le> 100"
    by (auto simp: SigilFilterModel_min_max_tier_in_range_Inr)
  from optional_int_field [OF fl(3)] fl(1)
  have mx: "(''maxTier'' \<in> model_fields_set m \<longrightarrow> sfm_maxTier m \<le> 100)
          \<and> (''maxTier'' \<notin> model_fields_set m \<longrightarrow> sfm_maxTier m = sys_maxsize)"
    by (auto simp: SigilFilterModel_min_max_tier_in_range_Inr fields_set_of_iff)
  from le mn mx show ?thesis by simp
qed

theorem sigil_tier_bounds_witness:
  "validate_SigilFilterModel example_env
     (RDict [(''blacklist'', RList [RStr ''cellars'']), (''minTier'', RInt 50), (''maxTier'', RInt 80)])
     = Inr \<lparr>model_fields_set = {''blacklist'', ''maxTier'', ''minTier''},
            sfm_blacklist = [\<lparr>model_fields_set = {''name''}, scm_name = ''cellars'',
                              scm_condition = []\<rparr>],
            sfm_maxTier = 80, sfm_minTier = 50, sfm_priority = SigilPriority_blacklist,
            sfm_whitelist = []\<rparr>
   \<and> (0::int) \<le> 50 \<and> (50::int) \<le> 80 \<and> (80::int) \<le> 100"
proof -
  let ?m = "\<lparr>model_fields_set = {''blacklist'', ''maxTier'', ''minTier''},
             sfm_blacklist = [\<lparr>model_fields_set = {''name''}, scm_name = ''cellars'',
                               scm_condition = []\<rparr>],
             sfm_maxTier = 80, sfm_minTier = 50, sfm_priority = SigilPriority_blacklist,
             sfm_whitelist = []\<rparr>"
  have v: "validate_SigilFilterModel example_env
             (RDict [(''blacklist'', RList [RStr ''cellars'']), (''minTier'', RInt 50),
                     (''maxTier'', RInt 80)]) = Inr ?m"
    by code_simp
  from sigil_tier_bounds [OF v] v show ?thesis by simp
qed

text \<open>
  The claim C3 as stated fails: a sigil filter that gives \<open>minTier: 50\<close> and no
  \<open>maxTier\<close> validates, and its \<open>maxTier\<close> is \<open>sys.maxsize\<close>, above 100.
\<close>

theorem sigil_tier_bounds_counterexample:
  "validate_SigilFilterModel example_env (RDict [(''minTier'', RInt 50)])
     = Inr \<lparr>model_fields_set = {''minTier''}, sfm_blacklist = [],
            sfm_maxTier = 9223372036854775807, sfm_minTier = 50,
            sfm_priority = SigilPriority_blacklist, sfm_whitelist = []\<rparr>
   \<and> \<not> (sfm_maxTier \<lparr>model_fields_set = {''minTier''}, sfm_blacklist = [],
            sfm_maxTier = 9223372036854775807, sfm_minTier = 50,
            sfm_priority = SigilPriority_blacklist, sfm_whitelist = []\<rparr> \<le> 100)"
proof -
  have "validate_SigilFilterModel example_env (RDict [(''minTier'', RInt 50)])
     = Inr \<lparr>model_fields_set = {''minTier''}, sfm_blacklist = [],
            sfm_maxTier = 9223372036854775807, sfm_minTier = 50,
            sfm_priority = SigilPriority_blacklist, sfm_whitelist = []\<rparr>"
    by code_simp
  then show ?thesis by simp
qed

text \<open>
  C4, as amended. An ItemFilterModel that validates has \<open>minGreaterAffixCount\<close> in
  \<open>[0, 3]\<close>, and a given integer outside that range fails its validation. A
  UniqueModel checks \<open>minGreaterAffixCount\<close> with \<open>check_greater_than_zero\<close> only: a
  negative integer fails, every other integer is accepted as it is, so a validated
  UniqueModel has \<open>minGreaterAffixCount \<ge> 0\<close> with no upper bound. The same holds of
  the \<open>minGreaterAffixCount\<close> of an AffixFilterCountModel.
\<close>

theorem min_greater_affix_count_ranges:
  "(validate_ItemFilterModel E data = Inr m
    \<longrightarrow> 0 \<le> ifm_minGreaterAffixCount m \<and> ifm_minGreaterAffixCount m \<le> 3)
   \<and> (map_of kvs ''minGreaterAffixCount'' = Some (RInt v) \<and> \<not> (0 \<le> v \<and> v \<le> 3)
    \<longrightarrow> fails_with (validate_ItemFilterModel E (RDict kvs)) (value_error [Text ''must be in [0, 3]'']))
   \<and> (validate_UniqueModel E data = Inr u \<longrightarrow> 0 \<le> um_minGreaterAffixCount u)
   \<and> (map_of kvs ''minGreaterAffixCount'' = Some (RInt v) \<and> v < 0
    \<longrightarrow> isl (validate_UniqueModel E (RDict kvs)))
   \<and> (0 \<le> v
    \<longrightarrow> validate_UniqueModel E (RDict [(''minGreaterAffixCount'', RInt v)])
        = Inr \<lparr>model_fields_set = {''minGreaterAffixCount''}, um_affix = [], um_aspect = None,
               um_itemType = [], um_minGreaterAffixCount = v, um_minPower = 0\<rparr>)
   \<and> (validate_AffixFilterCountModel E data = Inr p \<longrightarrow> 0 \<le> afc_minGreaterAffixCount p)"
proof -
  have item: "0 \<le> ifm_minGreaterAffixCount m \<and> ifm_minGreaterAffixCount m \<le> 3"
    if "validate_ItemFilterModel E data = Inr m"
  proof -
    from that obtain kvs' where "ItemFilterModel_fields E kvs' = Inr m"
      by (cases data) auto
    from optional_int_field [OF ItemFilterModel_fields_Inr(5) [OF this]] show ?thesis
      by (auto simp: ItemFilterModel_min_greater_affix_in_range_Inr)
  qed
  have item_fails: "fails_with (validate_ItemFilterModel E (RDict kvs))
                      (value_error [Text ''must be in [0, 3]''])"
    if "map_of kvs ''minGreaterAffixCount'' = Some (RInt v)" and "\<not> (0 \<le> v \<and> v \<le> 3)"
  proof -
    from that(2) have "ItemFilterModel_min_greater_affix_in_range v
                         = Inl [value_error [Text ''must be in [0, 3]'']]"
      by (simp add: ItemFilterModel_min_greater_affix_in_range_def)
    with that(1) have "fails_with (optional kvs ''minGreaterAffixCount''
              (\<lambda>r. and_then (pyd_int E r) ItemFilterModel_min_greater_affix_in_range) 0)
              (value_error [Text ''must be in [0, 3]''])"
      by (rule fails_with_optional_int)
    then show ?thesis
      unfolding validate_ItemFilterModel.simps ItemFilterModel_fields_def
      by (intro fails_with_extra_forbid fails_with_ap_left fails_with_ap_right)
  qed
  have unique: "0 \<le> um_minGreaterAffixCount u" if "validate_UniqueModel E data = Inr u"
  proof -
    from that obtain kvs' where "UniqueModel_fields E kvs' = Inr u"
      by (cases data) auto
    from optional_int_field [OF UniqueModel_fields_Inr(5) [OF this]] show ?thesis
      by (auto simp: UniqueModel_count_validator_def check_greater_than_zero_Inr)
  qed
  have unique_fails: "isl (validate_UniqueModel E (RDict kvs))"
    if "map_of kvs ''minGreaterAffixCount'' = Some (RInt v)" and "v < 0"
  proof -
    from that(2) have "UniqueModel_count_validator v = Inl [value_error []]"
      by (simp add: UniqueModel_count_validator_def check_greater_than_zero_def)
    with that(1) have "fails_with (optional kvs ''minGreaterAffixCount''
              (\<lambda>r. and_then (pyd_int E r) UniqueModel_count_validator) 0) (value_error [])"
      by (rule fails_with_optional_int)
    then have "fails_with (validate_UniqueModel E (RDict kvs)) (value_error [])"
      unfolding validate_UniqueModel.simps UniqueModel_fields_def
      by (intro fails_with_extra_forbid fails_with_ap_left fails_with_ap_right)
    then show ?thesis
      by (cases "validate_UniqueModel E (RDict kvs)") simp_all
  qed
  have unique_accepts: "validate_UniqueModel E (RDict [(''minGreaterAffixCount'', RInt v)])
        = Inr \<lparr>model_fields_set = {''minGreaterAffixCount''}, um_affix = [], um_aspect = None,
               um_itemType = [], um_minGreaterAffixCount = v, um_minPower = 0\<rparr>"
    if "0 \<le> v"
    using that
    by (simp add: UniqueModel_fields_def extra_forbid_def optional_def fields_set_of_def
          UniqueModel_count_validator_def check_greater_than_zero_def)
  have pool: "0 \<le> afc_minGreaterAffixCount p" if "validate_AffixFilterCountModel E data = Inr p"
  proof -
    from that obtain kvs' m0 where f: "AffixFilterCountModel_fields E kvs' = Inr m0"
      and v: "AffixFilterCountModel_model_validator m0 = Inr p"
      by (rule validate_AffixFilterCountModel_Inr)
    from optional_int_field [OF AffixFilterCountModel_fields_Inr(5) [OF f]]
      AffixFilterCountModel_model_validator_Inr(3) [OF v]
    show ?thesis
      by (auto simp: AffixFilterCountModel_count_validator_def check_greater_than_zero_Inr)
  qed
  from item item_fails unique unique_fails unique_accepts pool show ?thesis
    by blast
qed

theorem min_greater_affix_count_ranges_witness:
  "validate_ItemFilterModel example_env
     (RDict [(''itemType'', RStr ''helm''), (''minGreaterAffixCount'', RInt 2)])
     = Inr \<lparr>model_fields_set = {''itemType'', ''minGreaterAffixCount''}, ifm_affixPool = [],
            ifm_inherentPool = [], ifm_itemType = [''helm''], ifm_minGreaterAffixCount = 2,
            ifm_minPower = 0\<rparr>
   \<and> fails_with (validate_ItemFilterModel example_env (RDict [(''minGreaterAffixCount'', RInt 4)]))
       (value_error [Text ''must be in [0, 3]''])
   \<and> validate_UniqueModel example_env (RDict [(''minGreaterAffixCount'', RInt 7)])
       = Inr \<lparr>model_fields_set = {''minGreaterAffixCount''}, um_affix = [], um_aspect = None,
              um_itemType = [], um_minGreaterAffixCount = 7, um_minPower = 0\<rparr>"
proof -
  let ?m = "\<lparr>model_fields_set = {''itemType'', ''minGreaterAffixCount''}, ifm_affixPool = [],
             ifm_inherentPool = [], ifm_itemType = [''helm''], ifm_minGreaterAffixCount = 2,
             ifm_minPower = 0\<rparr>"
  have v: "validate_ItemFilterModel example_env
             (RDict [(''itemType'', RStr ''helm''), (''minGreaterAffixCount'', RInt 2)]) = Inr ?m"
    by code_simp
  have k: "map_of [(''minGreaterAffixCount'', RInt 4)] ''minGreaterAffixCount'' = Some (RInt 4)"
    "\<not> (0 \<le> (4::int) \<and> (4::int) \<le> 3)"
    by simp_all
  from min_greater_affix_count_ranges
         [where E = example_env and kvs = "[(''minGreaterAffixCount'', RInt 4)]" and v = 4] k
  have 1: "fails_with (validate_ItemFilterModel example_env (RDict [(''minGreaterAffixCount'', RInt 4)]))
             (value_error [Text ''must be in [0, 3]''])"
    by blast
  have "(0::int) \<le> 7" by simp
  with min_greater_affix_count_ranges [where E = example_env and v = 7]
  have 2: "validate_UniqueModel example_env (RDict [(''minGreaterAffixCount'', RInt 7)])
       = Inr \<lparr>model_fields_set = {''minGreaterAffixCount''}, um_affix = [], um_aspect = None,
              um_itemType = [], um_minGreaterAffixCount = 7, um_minPower = 0\<rparr>"
    by blast
  from min_greater_affix_count_ranges [where E = example_env and m = ?m, THEN conjunct1, THEN mp, OF v]
  have 3: "0 \<le> ifm_minGreaterAffixCount ?m \<and> ifm_minGreaterAffixCount ?m \<le> 3" .
  from min_greater_affix_count_ranges
         [where E = example_env and data = "RDict [(''minGreaterAffixCount'', RInt 7)]"] 2
  have 4: "0 \<le> um_minGreaterAffixCount
             \<lparr>model_fields_set = {''minGreaterAffixCount''}, um_affix = [], um_aspect = None,
              um_itemType = [], um_minGreaterAffixCount = 7, um_minPower = 0\<rparr>"
    by blast
  from v 1 2 3 4 show ?thesis by blast
qed

text \<open>
  The claim C4 as stated fails for unique rules: \<open>minGreaterAffixCount: 4\<close> validates
  as a UniqueModel.
\<close>

theorem min_greater_affix_count_counterexample:
  "validate_UniqueModel example_env (RDict [(''minGreaterAffixCount'', RInt 4)])
     = Inr \<lparr>model_fields_set = {''minGreaterAffixCount''}, um_affix = [], um_aspect = None,
            um_itemType = [], um_minGreaterAffixCount = 4, um_minPower = 0\<rparr>
   \<and> \<not> (um_minGreaterAffixCount
           \<lparr>model_fields_set = {''minGreaterAffixCount''}, um_affix = [], um_aspect = None,
            um_itemType = [], um_minGreaterAffixCount = 4, um_minPower = 0\<rparr> \<le> 3)"
proof -
  have "validate_UniqueModel example_env (RDict [(''minGreaterAffixCount'', RInt 4)])
     = Inr \<lparr>model_fields_set = {''minGreaterAffixCount''}, um_affix = [], um_aspect = None,
            um_itemType = [], um_minGreaterAffixCount = 4, um_minPower = 0\<rparr>"
    by code_simp
  then show ?thesis by simp
qed

text \<open>
  C5. Shorthand normalization of affix rules, aspect rules and sigil conditions. A
  bare string parses as the one-element list that holds it. For affix and aspect
  rules a list of one, two or three values gives name, value and comparison by
  position; for sigil conditions the head of a non-empty list is the name and a
  non-empty tail is the condition list. The empty list, a list of more than three
  items for affix and aspect rules, and an input that is neither a string, a list
  nor a mapping fail validation.
\<close>

theorem shorthand_normalization:
  "validate_AffixFilterModel E (RStr s) = validate_AffixFilterModel E (RList [RStr s])
   \<and> validate_AspectUniqueFilterModel E (RStr s) = validate_AspectUniqueFilterModel E (RList [RStr s])
   \<and> validate_SigilConditionModel E (RStr s) = validate_SigilConditionModel E (RList [RStr s])
   \<and> AffixAspectFilterModel_parse_data (RList [n]) = Inr [(''name'', n)]
   \<and> AffixAspectFilterModel_parse_data (RList [n, v]) = Inr [(''name'', n), (''value'', v)]
   \<and> AffixAspectFilterModel_parse_data (RList [n, v, c])
       = Inr [(''name'', n), (''value'', v), (''comparison'', c)]
   \<and> SigilConditionModel_parse_data (RList [n]) = Inr [(''name'', n)]
   \<and> SigilConditionModel_parse_data (RList (n # c # cs))
       = Inr [(''name'', n), (''condition'', RList (c # cs))]
   \<and> validate_AffixFilterModel E (RList [])
       = Inl [value_error [Text ''list, cannot be empty or larger than 3 items'']]
   \<and> validate_AspectUniqueFilterModel E (RList [])
       = Inl [value_error [Text ''list, cannot be empty or larger than 3 items'']]
   \<and> validate_SigilConditionModel E (RList []) = Inl [value_error [Text ''list cannot be empty'']]
   \<and> (3 < length xs \<longrightarrow>
        validate_AffixFilterModel E (RList xs)
          = Inl [value_error [Text ''list, cannot be empty or larger than 3 items'']]
      \<and> validate_AspectUniqueFilterModel E (RList xs)
          = Inl [value_error [Text ''list, cannot be empty or larger than 3 items'']])
   \<and> (data \<in> {RNone, RBool b, RInt i, RFloat f} \<longrightarrow>
        validate_AffixFilterModel E data = Inl [value_error [Text ''must be str or list'']]
      \<and> validate_AspectUniqueFilterModel E data = Inl [value_error [Text ''must be str or list'']]
      \<and> validate_SigilConditionModel E data = Inl [value_error [Text ''must be str or list'']])"
  by (auto simp: validate_AffixFilterModel_def validate_AspectUniqueFilterModel_def
        validate_SigilConditionModel_def)

theorem shorthand_normalization_witness:
  "3 < length [RStr ''armor'', RInt 5, RStr ''larger'', RNone]
   \<and> validate_AffixFilterModel example_env (RList [RStr ''armor'', RInt 5, RStr ''larger'', RNone])
       = Inl [value_error [Text ''list, cannot be empty or larger than 3 items'']]
   \<and> RInt 7 \<in> {RNone, RBool True, RInt 7, RFloat 0}
   \<and> validate_SigilConditionModel example_env (RInt 7)
       = Inl [value_error [Text ''must be str or list'']]"
proof -
  have len: "3 < length [RStr ''armor'', RInt 5, RStr ''larger'', RNone]"
    by simp
  have mem: "RInt 7 \<in> {RNone, RBool True, RInt 7, RFloat 0}"
    by simp
  from shorthand_normalization
         [where E = example_env and xs = "[RStr ''armor'', RInt 5, RStr ''larger'', RNone]"
            and data = "RInt 7" and b = True and i = 7 and f = 0]
       len mem
  show ?thesis by blast
qed

text \<open>
  C6. An affix rule, an aspect rule or a sigil condition whose name is not a key of
  the corresponding dictionary of the catalog fails validation, and the error carries
  the name; for a sigil condition the same holds of the entries of its condition
  list, of which the error carries exactly the unknown ones. A name that is a key
  passes the name check unchanged.
\<close>

theorem unknown_names_fail_validation:
  "(AffixAspectFilterModel_parse_data data = Inr kvs \<and> map_of kvs ''name'' = Some (RStr n)
      \<and> affix_dict E n = None
    \<longrightarrow> fails_with (validate_AffixFilterModel E data)
          (value_error [Text (''affix '' @ n @ '' does not exist'')]))
   \<and> (AffixAspectFilterModel_parse_data data = Inr kvs \<and> map_of kvs ''name'' = Some (RStr n)
      \<and> aspect_unique_dict E n = None
    \<longrightarrow> fails_with (validate_AspectUniqueFilterModel E data)
          (value_error [Text (''affix '' @ n @ '' does not exist'')]))
   \<and> (SigilConditionModel_parse_data data = Inr kvs \<and> map_of kvs ''name'' = Some (RStr n)
      \<and> affix_sigil_dict E n = None
    \<longrightarrow> fails_with (validate_SigilConditionModel E data)
          (value_error [Text ''The following affixes/dungeons do not exist: '', Repr_names [n]]))
   \<and> (SigilConditionModel_parse_data data = Inr kvs
      \<and> map_of kvs ''condition'' = Some (RList (map RStr cs))
      \<and> (\<exists>c \<in> set cs. affix_sigil_dict E c = None)
    \<longrightarrow> fails_with (validate_SigilConditionModel E data)
          (value_error [Text ''The following affixes/dungeons do not exist: '',
                        Repr_names (filter (\<lambda>c. affix_sigil_dict E c = None) cs)]))
   \<and> (affix_dict E n \<noteq> None \<longrightarrow> AffixFilterModel_name_must_exist E n = Inr n)
   \<and> (aspect_unique_dict E n \<noteq> None \<longrightarrow> AspectUniqueFilterModel_name_must_exist E n = Inr n)
   \<and> (affix_sigil_dict E n \<noteq> None \<longrightarrow> SigilConditionModel_name_must_exist E (\<lambda>s. [s]) n = Inr n)
   \<and> ((\<forall>c \<in> set cs. affix_sigil_dict E c \<noteq> None)
    \<longrightarrow> SigilConditionModel_name_must_exist E (\<lambda>l. l) cs = Inr cs)"
proof (intro conjI impI; (elim conjE)?)
  assume "AffixAspectFilterModel_parse_data data = Inr kvs"
    and "map_of kvs ''name'' = Some (RStr n)" and "affix_dict E n = None"
  then show "fails_with (validate_AffixFilterModel E data)
               (value_error [Text (''affix '' @ n @ '' does not exist'')])"
    by (simp add: validate_AffixFilterModel_def AffixAspectFilterModel_fields_bad_name
          AffixFilterModel_name_must_exist_def)
next
  assume "AffixAspectFilterModel_parse_data data = Inr kvs"
    and "map_of kvs ''name'' = Some (RStr n)" and "aspect_unique_dict E n = None"
  then show "fails_with (validate_AspectUniqueFilterModel E data)
               (value_error [Text (''affix '' @ n @ '' does not exist'')])"
    by (simp add: validate_AspectUniqueFilterModel_def AffixAspectFilterModel_fields_bad_name
          AspectUniqueFilterModel_name_must_exist_def)
next
  assume "SigilConditionModel_parse_data data = Inr kvs"
    and "map_of kvs ''name'' = Some (RStr n)" and "affix_sigil_dict E n = None"
  then show "fails_with (validate_SigilConditionModel E data)
               (value_error [Text ''The following affixes/dungeons do not exist: '', Repr_names [n]])"
    by (simp add: validate_SigilConditionModel_def SigilConditionModel_fields_bad_name
          SigilConditionModel_name_must_exist_def)
next
  assume "SigilConditionModel_parse_data data = Inr kvs"
    and "map_of kvs ''condition'' = Some (RList (map RStr cs))"
    and "\<exists>c \<in> set cs. affix_sigil_dict E c = None"
  then show "fails_with (validate_SigilConditionModel E data)
               (value_error [Text ''The following affixes/dungeons do not exist: '',
                             Repr_names (filter (\<lambda>c. affix_sigil_dict E c = None) cs)])"
    by (simp add: validate_SigilConditionModel_def SigilConditionModel_fields_bad_condition)
next
  assume "\<forall>c \<in> set cs. affix_sigil_dict E c \<noteq> None"
  then show "SigilConditionModel_name_must_exist E (\<lambda>l. l) cs = Inr cs"
    by (simp add: SigilConditionModel_name_must_exist_def filter_empty_conv)
qed (simp_all add: AffixFilterModel_name_must_exist_def AspectUniqueFilterModel_name_must_exist_def
      SigilConditionModel_name_must_exist_def)

theorem unknown_names_fail_validation_witness:
  "fails_with (validate_AffixFilterModel example_env (RList [RStr ''armour'', RFloat 5]))
     (value_error [Text ''affix armour does not exist''])
   \<and> fails_with (validate_SigilConditionModel example_env
        (RList [RStr ''cellars'', RStr ''death_pulse'', RStr ''frost'', RStr ''fire'']))
     (value_error [Text ''The following affixes/dungeons do not exist: '',
                   Repr_names [''frost'', ''fire'']])
   \<and> AffixFilterModel_name_must_exist example_env ''armor'' = Inr ''armor''
   \<and> fails_with (validate_AspectUniqueFilterModel example_env (RStr ''tibault''))
       (value_error [Text ''affix tibault does not exist''])
   \<and> fails_with (validate_SigilConditionModel example_env (RStr ''cellar''))
       (value_error [Text ''The following affixes/dungeons do not exist: '', Repr_names [''cellar'']])
   \<and> SigilConditionModel_name_must_exist example_env (\<lambda>l. l) [''cellars'', ''death_pulse'']
       = Inr [''cellars'', ''death_pulse'']"
proof -
  have a: "AffixAspectFilterModel_parse_data (RList [RStr ''armour'', RFloat 5])
             = Inr [(''name'', RStr ''armour''), (''value'', RFloat 5)]"
    "map_of [(''name'', RStr ''armour''), (''value'', RFloat 5)] ''name'' = Some (RStr ''armour'')"
    "affix_dict example_env ''armour'' = None"
    by (simp_all add: example_env_def)
  have s: "SigilConditionModel_parse_data
             (RList [RStr ''cellars'', RStr ''death_pulse'', RStr ''frost'', RStr ''fire''])
             = Inr [(''name'', RStr ''cellars''),
                    (''condition'', RList (map RStr [''death_pulse'', ''frost'', ''fire'']))]"
    "map_of [(''name'', RStr ''cellars''),
             (''condition'', RList (map RStr [''death_pulse'', ''frost'', ''fire'']))] ''condition''
       = Some (RList (map RStr [''death_pulse'', ''frost'', ''fire'']))"
    "\<exists>c \<in> set [''death_pulse'', ''frost'', ''fire'']. affix_sigil_dict example_env c = None"
    by (simp_all add: example_env_def)
  have f: "filter (\<lambda>c. affix_sigil_dict example_env c = None) [''death_pulse'', ''frost'', ''fire'']
             = [''frost'', ''fire'']"
    by (simp add: example_env_def)
  have p: "affix_dict example_env ''armor'' \<noteq> None"
    by (simp add: example_env_def)
  from unknown_names_fail_validation
         [where E = example_env and data = "RList [RStr ''armour'', RFloat 5]"
            and kvs = "[(''name'', RStr ''armour''), (''value'', RFloat 5)]" and n = "''armour''"]
       a
  have 1: "fails_with (validate_AffixFilterModel example_env (RList [RStr ''armour'', RFloat 5]))
             (value_error [Text ''affix armour does not exist''])"
    by simp
  from unknown_names_fail_validation
         [where E = example_env
            and data = "RList [RStr ''cellars'', RStr ''death_pulse'', RStr ''frost'', RStr ''fire'']"
            and kvs = "[(''name'', RStr ''cellars''),
                        (''condition'', RList (map RStr [''death_pulse'', ''frost'', ''fire'']))]"
            and cs = "[''death_pulse'', ''frost'', ''fire'']" and n = "''armor''"]
       s p
  have 2: "fails_with (validate_SigilConditionModel example_env
             (RList [RStr ''cellars'', RStr ''death_pulse'', RStr ''frost'', RStr ''fire'']))
             (value_error [Text ''The following affixes/dungeons do not exist: '',
                           Repr_names [''frost'', ''fire'']])"
    and 3: "AffixFilterModel_name_must_exist example_env ''armor'' = Inr ''armor''"
    unfolding f by blast+
  have u: "AffixAspectFilterModel_parse_data (RStr ''tibault'') = Inr [(''name'', RStr ''tibault'')]"
    "map_of [(''name'', RStr ''tibault'')] ''name'' = Some (RStr ''tibault'')"
    "aspect_unique_dict example_env ''tibault'' = None"
    by (simp_all add: example_env_def)
  from unknown_names_fail_validation
         [where E = example_env and data = "RStr ''tibault''"
            and kvs = "[(''name'', RStr ''tibault'')]" and n = "''tibault''"] u
  have 4: "fails_with (validate_AspectUniqueFilterModel example_env (RStr ''tibault''))
             (value_error [Text ''affix tibault does not exist''])"
    by simp
  have c: "SigilConditionModel_parse_data (RStr ''cellar'') = Inr [(''name'', RStr ''cellar'')]"
    "map_of [(''name'', RStr ''cellar'')] ''name'' = Some (RStr ''cellar'')"
    "affix_sigil_dict example_env ''cellar'' = None"
    by (simp_all add: example_env_def)
  from unknown_names_fail_validation
         [where E = example_env and data = "RStr ''cellar''"
            and kvs = "[(''name'', RStr ''cellar'')]" and n = "''cellar''"] c
  have 5: "fails_with (validate_SigilConditionModel example_env (RStr ''cellar''))
             (value_error [Text ''The following affixes/dungeons do not exist: '',
                           Repr_names [''cellar'']])"
    by blast
  have k: "\<forall>c \<in> set [''cellars'', ''death_pulse'']. affix_sigil_dict example_env c \<noteq> None"
    by (simp add: example_env_def)
  from unknown_names_fail_validation
         [where E = example_env and cs = "[''cellars'', ''death_pulse'']"] k
  have 6: "SigilConditionModel_name_must_exist example_env (\<lambda>l. l) [''cellars'', ''death_pulse'']
             = Inr [''cellars'', ''death_pulse'']"
    by blast
  from 1 2 3 4 5 6 show ?thesis by blast
qed

text \<open>
  C7. No validated AffixFilterCountModel has an empty \<open>count\<close> list: a mapping whose
  \<open>count\<close> is absent or the empty list is rejected, also when no bound is given, so
  that both bounds are inferred as 0.
\<close>

theorem empty_pool_is_rejected:
  "(validate_AffixFilterCountModel E data = Inr m \<longrightarrow> afc_count m \<noteq> [])
   \<and> (map_of kvs ''count'' = None \<or> map_of kvs ''count'' = Some (RList [])
      \<longrightarrow> isl (validate_AffixFilterCountModel E (RDict kvs)))
   \<and> validate_AffixFilterCountModel E (RDict [])
       = Inl [value_error [Text ''count must not be empty'']]
   \<and> validate_AffixFilterCountModel E (RDict [(''count'', RList [])])
       = Inl [value_error [Text ''count must not be empty'']]"
proof (intro conjI impI)
  assume "validate_AffixFilterCountModel E data = Inr m"
  then obtain kvs' m0 where "AffixFilterCountModel_model_validator m0 = Inr m"
    by (rule validate_AffixFilterCountModel_Inr)
  then show "afc_count m \<noteq> []"
    by (rule AffixFilterCountModel_model_validator_Inr(4))
next
  assume "map_of kvs ''count'' = None \<or> map_of kvs ''count'' = Some (RList [])"
  then show "isl (validate_AffixFilterCountModel E (RDict kvs))"
    by (rule AffixFilterCountModel_empty_count_fails)
next
  show "validate_AffixFilterCountModel E (RDict [])
          = Inl [value_error [Text ''count must not be empty'']]"
    by (simp add: AffixFilterCountModel_fields_def extra_forbid_def optional_def
          fields_set_of_def AffixFilterCountModel_model_validator_def set_remove_def)
next
  show "validate_AffixFilterCountModel E (RDict [(''count'', RList [])])
          = Inl [value_error [Text ''count must not be empty'']]"
    by (simp add: AffixFilterCountModel_fields_def extra_forbid_def optional_def
          fields_set_of_def AffixFilterCountModel_model_validator_def set_remove_def)
qed

theorem empty_pool_is_rejected_witness:
  "validate_AffixFilterCountModel example_env
     (RDict [(''count'', RList [RStr ''armor'']), (''minCount'', RInt 0)])
     = Inr \<lparr>model_fields_set = {''count'', ''minCount''},
            afc_count = [\<lparr>model_fields_set = {''name''}, aaf_name = ''armor'', aaf_value = None,
                          aaf_comparison = larger\<rparr>],
            afc_maxCount = sys_maxsize, afc_minCount = 0, afc_minGreaterAffixCount = 0\<rparr>
   \<and> [\<lparr>model_fields_set = {''name''}, aaf_name = ''armor'', aaf_value = None,
        aaf_comparison = larger\<rparr>] \<noteq> []
   \<and> map_of [(''minCount'', RInt 0), (''maxCount'', RInt 0)] ''count'' = None
   \<and> isl (validate_AffixFilterCountModel example_env
            (RDict [(''minCount'', RInt 0), (''maxCount'', RInt 0)]))"
proof -
  let ?m = "\<lparr>model_fields_set = {''count'', ''minCount''},
             afc_count = [\<lparr>model_fields_set = {''name''}, aaf_name = ''armor'', aaf_value = None,
                           aaf_comparison = larger\<rparr>],
             afc_maxCount = sys_maxsize, afc_minCount = 0, afc_minGreaterAffixCount = 0\<rparr>"
  have v: "validate_AffixFilterCountModel example_env
             (RDict [(''count'', RList [RStr ''armor'']), (''minCount'', RInt 0)]) = Inr ?m"
    by code_simp
  have n: "map_of [(''minCount'', RInt 0), (''maxCount'', RInt 0)] ''count'' = None"
    by simp
  from empty_pool_is_rejected
         [where E = example_env and m = ?m
            and data = "RDict [(''count'', RList [RStr ''armor'']), (''minCount'', RInt 0)]"
            and kvs = "[(''minCount'', RInt 0), (''maxCount'', RInt 0)]"]
       v n
  show ?thesis by simp
qed

text \<open>
  C8. A SigilFilterModel that validates has no entry of its blacklist equal to an
  entry of its whitelist (equality of models compares the field values); when the
  validated fields hold such a pair, validation fails with the error that lists the
  blacklist entries found in the whitelist.
\<close>

theorem blacklist_whitelist_disjoint:
  "(validate_SigilFilterModel E data = Inr m
    \<longrightarrow> (\<forall>b \<in> set (sfm_blacklist m). \<forall>w \<in> set (sfm_whitelist m). \<not> SigilConditionModel_eq b w)
      \<and> set (sfm_blacklist m) \<inter> set (sfm_whitelist m) = {})
   \<and> (SigilFilterModel_fields E kvs = Inr self
      \<and> b \<in> set (sfm_blacklist self) \<and> w \<in> set (sfm_whitelist self) \<and> SigilConditionModel_eq b w
    \<longrightarrow> validate_SigilFilterModel E (RDict kvs)
        = Inl [value_error [Text ''blacklist and whitelist must not overlap: '',
                 Repr_conditions
                   (filter (\<lambda>item. list_ex (SigilConditionModel_eq item) (sfm_whitelist self))
                      (sfm_blacklist self))]])"
proof -
  have disjoint: "(\<forall>b \<in> set (sfm_blacklist m). \<forall>w \<in> set (sfm_whitelist m). \<not> SigilConditionModel_eq b w)
      \<and> set (sfm_blacklist m) \<inter> set (sfm_whitelist m) = {}"
    if "validate_SigilFilterModel E data = Inr m"
  proof -
    from that obtain kvs' where "SigilFilterModel_data_integrity m = Inr m"
      by (rule validate_SigilFilterModel_Inr)
    then have ne: "\<forall>b \<in> set (sfm_blacklist m). \<forall>w \<in> set (sfm_whitelist m). \<not> SigilConditionModel_eq b w"
      by (simp add: SigilFilterModel_data_integrity_Inr)
    moreover have "SigilConditionModel_eq x x" for x
      by (simp add: SigilConditionModel_eq_def)
    ultimately have "set (sfm_blacklist m) \<inter> set (sfm_whitelist m) = {}"
      by blast
    with ne show ?thesis by simp
  qed
  have overlap: "validate_SigilFilterModel E (RDict kvs)
        = Inl [value_error [Text ''blacklist and whitelist must not overlap: '',
                 Repr_conditions
                   (filter (\<lambda>item. list_ex (SigilConditionModel_eq item) (sfm_whitelist self))
                      (sfm_blacklist self))]]"
    if f: "SigilFilterModel_fields E kvs = Inr self"
      and "b \<in> set (sfm_blacklist self)" "w \<in> set (sfm_whitelist self)" "SigilConditionModel_eq b w"
  proof -
    from that(2-4)
    have "filter (\<lambda>item. list_ex (SigilConditionModel_eq item) (sfm_whitelist self))
            (sfm_blacklist self) \<noteq> []"
      by (auto simp: filter_empty_conv list_ex_iff)
    then show ?thesis
      by (simp add: f SigilFilterModel_data_integrity_def)
  qed
  from disjoint overlap show ?thesis by blast
qed

theorem blacklist_whitelist_disjoint_witness:
  "validate_SigilFilterModel example_env
     (RDict [(''blacklist'', RList [RStr ''cellars'']),
             (''whitelist'', RList [RStr ''death_pulse''])])
     = Inr \<lparr>model_fields_set = {''blacklist'', ''whitelist''},
            sfm_blacklist = [\<lparr>model_fields_set = {''name''}, scm_name = ''cellars'',
                              scm_condition = []\<rparr>],
            sfm_maxTier = sys_maxsize, sfm_minTier = 0, sfm_priority = SigilPriority_blacklist,
            sfm_whitelist = [\<lparr>model_fields_set = {''name''}, scm_name = ''death_pulse'',
                              scm_condition = []\<rparr>]\<rparr>
   \<and> \<not> SigilConditionModel_eq
         \<lparr>model_fields_set = {''name''}, scm_name = ''cellars'', scm_condition = []\<rparr>
         \<lparr>model_fields_set = {''name''}, scm_name = ''death_pulse'', scm_condition = []\<rparr>
   \<and> validate_SigilFilterModel example_env
       (RDict [(''blacklist'', RList [RStr ''cellars'']),
               (''whitelist'', RList [RDict [(''name'', RStr ''cellars''), (''condition'', RList [])]])])
     = Inl [value_error [Text ''blacklist and whitelist must not overlap: '',
              Repr_conditions [\<lparr>model_fields_set = {''name''}, scm_name = ''cellars'',
                                 scm_condition = []\<rparr>]]]"
proof -
  let ?b = "\<lparr>model_fields_set = {''name''}, scm_name = ''cellars'', scm_condition = []\<rparr>"
  let ?w = "\<lparr>model_fields_set = {''name''}, scm_name = ''death_pulse'', scm_condition = []\<rparr>"
  let ?w' = "\<lparr>model_fields_set = {''name'', ''condition''}, scm_name = ''cellars'',
              scm_condition = []\<rparr>"
  let ?m = "\<lparr>model_fields_set = {''blacklist'', ''whitelist''}, sfm_blacklist = [?b],
             sfm_maxTier = sys_maxsize, sfm_minTier = 0, sfm_priority = SigilPriority_blacklist,
             sfm_whitelist = [?w]\<rparr>"
  let ?self = "\<lparr>model_fields_set = {''blacklist'', ''whitelist''}, sfm_blacklist = [?b],
             sfm_maxTier = sys_maxsize, sfm_minTier = 0, sfm_priority = SigilPriority_blacklist,
             sfm_whitelist = [?w']\<rparr>"
  let ?kvs = "[(''blacklist'', RList [RStr ''cellars'']),
               (''whitelist'', RList [RDict [(''name'', RStr ''cellars''), (''condition'', RList [])]])]"
  have v: "validate_SigilFilterModel example_env
             (RDict [(''blacklist'', RList [RStr ''cellars'']),
                     (''whitelist'', RList [RStr ''death_pulse''])]) = Inr ?m"
    by code_simp
  from blacklist_whitelist_disjoint [where E = example_env and m = ?m, THEN conjunct1, THEN mp, OF v]
  have 1: "\<not> SigilConditionModel_eq ?b ?w"
    by simp
  have f: "SigilFilterModel_fields example_env ?kvs = Inr ?self"
    by code_simp
  have e: "SigilConditionModel_eq ?b ?w'"
    by (simp add: SigilConditionModel_eq_def)
  have flt: "filter (\<lambda>item. list_ex (SigilConditionModel_eq item) (sfm_whitelist ?self))
               (sfm_blacklist ?self) = [?b]"
    by (simp add: SigilConditionModel_eq_def)
  have mem: "?b \<in> set (sfm_blacklist ?self)" "?w' \<in> set (sfm_whitelist ?self)"
    by simp_all
  from blacklist_whitelist_disjoint
         [where E = example_env and kvs = ?kvs and self = ?self and b = ?b and w = ?w',
          THEN conjunct2, THEN mp, OF conjI [OF f conjI [OF mem(1) conjI [OF mem(2) e]]]]
  have 2: "validate_SigilFilterModel example_env (RDict ?kvs)
     = Inl [value_error [Text ''blacklist and whitelist must not overlap: '',
              Repr_conditions [?b]]]"
    unfolding flt .
  from v 1 2 show ?thesis by blast
qed

text \<open>
  C9. When a mapping gives exactly one of \<open>minCount\<close> and \<open>maxCount\<close>, nothing is
  inferred: the bound that is not given keeps its default, 0 for \<open>minCount\<close> and
  \<open>sys.maxsize\<close> for \<open>maxCount\<close>. A pool of three known affixes with \<open>minCount: 1\<close>
  alone validates with \<open>maxCount = sys.maxsize\<close>, far above 3.
\<close>

theorem one_bound_supplied_no_inference:
  "(validate_AffixFilterCountModel E (RDict kvs) = Inr m
      \<and> map_of kvs ''minCount'' \<noteq> None \<and> map_of kvs ''maxCount'' = None
    \<longrightarrow> afc_maxCount m = sys_maxsize \<and> ''maxCount'' \<notin> model_fields_set m)
   \<and> (validate_AffixFilterCountModel E (RDict kvs) = Inr m
      \<and> map_of kvs ''maxCount'' \<noteq> None \<and> map_of kvs ''minCount'' = None
    \<longrightarrow> afc_minCount m = 0 \<and> ''minCount'' \<notin> model_fields_set m)
   \<and> (affix_dict E a \<noteq> None \<and> affix_dict E b \<noteq> None \<and> affix_dict E c \<noteq> None
    \<longrightarrow> (\<exists>m'. validate_AffixFilterCountModel E
               (RDict [(''count'', RList [RStr a, RStr b, RStr c]), (''minCount'', RInt 1)]) = Inr m'
             \<and> length (afc_count m') = 3 \<and> afc_minCount m' = 1
             \<and> afc_maxCount m' = sys_maxsize \<and> 3 < afc_maxCount m'))"
proof -
  have no_max: "afc_maxCount m = sys_maxsize \<and> ''maxCount'' \<notin> model_fields_set m"
    if val: "validate_AffixFilterCountModel E (RDict kvs) = Inr m"
      and mn: "map_of kvs ''minCount'' \<noteq> None" and mx: "map_of kvs ''maxCount'' = None"
  proof -
    from val obtain m0 where f: "AffixFilterCountModel_fields E kvs = Inr m0"
      and v: "AffixFilterCountModel_model_validator m0 = Inr m"
      by (auto simp: and_then_Inr_iff)
    note fl = AffixFilterCountModel_fields_Inr [OF f]
    from fl(1) mn mx
    have set: "''minCount'' \<in> model_fields_set m0" "''maxCount'' \<notin> model_fields_set m0"
      by (simp_all add: fields_set_of_iff)
    from fl(3) mx have "afc_maxCount m0 = sys_maxsize"
      by (simp add: optional_def)
    with AffixFilterCountModel_model_validator_Inr(1,7) [OF v] set
    show ?thesis by simp
  qed
  have no_min: "afc_minCount m = 0 \<and> ''minCount'' \<notin> model_fields_set m"
    if val: "validate_AffixFilterCountModel E (RDict kvs) = Inr m"
      and mx: "map_of kvs ''maxCount'' \<noteq> None" and mn: "map_of kvs ''minCount'' = None"
  proof -
    from val obtain m0 where f: "AffixFilterCountModel_fields E kvs = Inr m0"
      and v: "AffixFilterCountModel_model_validator m0 = Inr m"
      by (auto simp: and_then_Inr_iff)
    note fl = AffixFilterCountModel_fields_Inr [OF f]
    from fl(1) mn mx
    have set: "''maxCount'' \<in> model_fields_set m0" "''minCount'' \<notin> model_fields_set m0"
      by (simp_all add: fields_set_of_iff)
    from fl(4) mn have "afc_minCount m0 = 0"
      by (simp add: optional_def)
    with AffixFilterCountModel_model_validator_Inr(1,7) [OF v] set
    show ?thesis by simp
  qed
  have example: "\<exists>m'. validate_AffixFilterCountModel E
               (RDict [(''count'', RList [RStr a, RStr b, RStr c]), (''minCount'', RInt 1)]) = Inr m'
             \<and> length (afc_count m') = 3 \<and> afc_minCount m' = 1
             \<and> afc_maxCount m' = sys_maxsize \<and> 3 < afc_maxCount m'"
    if "affix_dict E a \<noteq> None" "affix_dict E b \<noteq> None" "affix_dict E c \<noteq> None"
    by (simp add: validate_AffixFilterModel_bare_name [OF that(1)]
          validate_AffixFilterModel_bare_name [OF that(2)]
          validate_AffixFilterModel_bare_name [OF that(3)]
          AffixFilterCountModel_fields_def extra_forbid_def optional_def
          fields_set_of_def AffixFilterCountModel_model_validator_def
          AffixFilterCountModel_count_validator_def
          check_greater_than_zero_def sys_maxsize_def)
  from no_max no_min example show ?thesis by blast
qed

theorem one_bound_supplied_no_inference_witness:
  "validate_AffixFilterCountModel example_env
     (RDict [(''count'', RList [RStr ''armor'', RStr ''maximum_life'', RStr ''attack_speed'']),
             (''minCount'', RInt 1)])
     = Inr \<lparr>model_fields_set = {''count'', ''minCount''},
            afc_count =
              [\<lparr>model_fields_set = {''name''}, aaf_name = ''armor'', aaf_value = None,
                aaf_comparison = larger\<rparr>,
               \<lparr>model_fields_set = {''name''}, aaf_name = ''maximum_life'', aaf_value = None,
                aaf_comparison = larger\<rparr>,
               \<lparr>model_fields_set = {''name''}, aaf_name = ''attack_speed'', aaf_value = None,
                aaf_comparison = larger\<rparr>],
            afc_maxCount = 9223372036854775807, afc_minCount = 1,
            afc_minGreaterAffixCount = 0\<rparr>
   \<and> sys_maxsize = 9223372036854775807
   \<and> validate_AffixFilterCountModel example_env
       (RDict [(''count'', RList [RStr ''armor'', RStr ''maximum_life'']), (''maxCount'', RInt 1)])
     = Inr \<lparr>model_fields_set = {''count'', ''maxCount''},
            afc_count =
              [\<lparr>model_fields_set = {''name''}, aaf_name = ''armor'', aaf_value = None,
                aaf_comparison = larger\<rparr>,
               \<lparr>model_fields_set = {''name''}, aaf_name = ''maximum_life'', aaf_value = None,
                aaf_comparison = larger\<rparr>],
            afc_maxCount = 1, afc_minCount = 0, afc_minGreaterAffixCount = 0\<rparr>"
proof -
  let ?kvs = "[(''count'', RList [RStr ''armor'', RStr ''maximum_life'', RStr ''attack_speed'']),
               (''minCount'', RInt 1)]"
  let ?m = "\<lparr>model_fields_set = {''count'', ''minCount''},
             afc_count =
               [\<lparr>model_fields_set = {''name''}, aaf_name = ''armor'', aaf_value = None,
                 aaf_comparison = larger\<rparr>,
                \<lparr>model_fields_set = {''name''}, aaf_name = ''maximum_life'', aaf_value = None,
                 aaf_comparison = larger\<rparr>,
                \<lparr>model_fields_set = {''name''}, aaf_name = ''attack_speed'', aaf_value = None,
                 aaf_comparison = larger\<rparr>],
             afc_maxCount = 9223372036854775807, afc_minCount = 1,
             afc_minGreaterAffixCount = 0\<rparr>"
  let ?kvs2 = "[(''count'', RList [RStr ''armor'', RStr ''maximum_life'']), (''maxCount'', RInt 1)]"
  let ?m2 = "\<lparr>model_fields_set = {''count'', ''maxCount''},
            afc_count =
              [\<lparr>model_fields_set = {''name''}, aaf_name = ''armor'', aaf_value = None,
                aaf_comparison = larger\<rparr>,
               \<lparr>model_fields_set = {''name''}, aaf_name = ''maximum_life'', aaf_value = None,
                aaf_comparison = larger\<rparr>],
            afc_maxCount = 1, afc_minCount = 0, afc_minGreaterAffixCount = 0\<rparr>"
  have known: "affix_dict example_env ''armor'' \<noteq> None"
    "affix_dict example_env ''maximum_life'' \<noteq> None"
    "affix_dict example_env ''attack_speed'' \<noteq> None"
    by (simp_all add: example_env_def)
  have v: "validate_AffixFilterCountModel example_env (RDict ?kvs) = Inr ?m"
    by code_simp
  have h: "map_of ?kvs ''minCount'' \<noteq> None" "map_of ?kvs ''maxCount'' = None"
    by simp_all
  have v2: "validate_AffixFilterCountModel example_env (RDict ?kvs2) = Inr ?m2"
    by code_simp
  have h2: "map_of ?kvs2 ''maxCount'' \<noteq> None" "map_of ?kvs2 ''minCount'' = None"
    by simp_all
  from one_bound_supplied_no_inference [where E = example_env and kvs = ?kvs and m = ?m] v h
  have 1: "afc_maxCount ?m = sys_maxsize" by blast
  from one_bound_supplied_no_inference [where E = example_env and kvs = ?kvs2 and m = ?m2] v2 h2
  have 2: "afc_minCount ?m2 = 0" by blast
  from one_bound_supplied_no_inference
         [where E = example_env and a = "''armor''" and b = "''maximum_life''"
            and c = "''attack_speed''"] known
  have 3: "\<exists>m'. validate_AffixFilterCountModel example_env (RDict ?kvs) = Inr m'
             \<and> length (afc_count m') = 3 \<and> afc_minCount m' = 1
             \<and> afc_maxCount m' = sys_maxsize \<and> 3 < afc_maxCount m'"
    by blast
  from 1 2 3 v v2 show ?thesis by simp
qed

text \<open>
  C10. An affix or aspect rule parsed without an explicit comparison (a bare string,
  a list of at most two items, or a mapping without the key \<open>comparison\<close>) has the
  comparison \<open>larger\<close>.
\<close>

theorem default_comparison_is_larger:
  assumes "validate_AffixFilterModel E data = Inr m \<or> validate_AspectUniqueFilterModel E data = Inr m"
    and "(\<exists>s. data = RStr s) \<or> (\<exists>xs. data = RList xs \<and> length xs \<le> 2)
         \<or> (\<exists>kvs. data = RDict kvs \<and> map_of kvs ''comparison'' = None)"
  shows "aaf_comparison m = larger"
proof -
  from assms(1) obtain nv kvs
    where pd: "AffixAspectFilterModel_parse_data data = Inr kvs"
      and fs: "AffixAspectFilterModel_fields E nv kvs = Inr m"
    by (auto simp: validate_AffixFilterModel_def validate_AspectUniqueFilterModel_def
          and_then_Inr_iff)
  from pd assms(2) have "map_of kvs ''comparison'' = None"
    by (rule AffixAspectFilterModel_parse_data_no_comparison)
  with fs show ?thesis
    by (rule AffixAspectFilterModel_fields_default_comparison)
qed


theorem default_comparison_is_larger_witness:
  "validate_AffixFilterModel example_env (RList [RStr ''armor'', RFloat 5])
     = Inr \<lparr>model_fields_set = {''name'', ''value''}, aaf_name = ''armor'',
            aaf_value = Some 5, aaf_comparison = larger\<rparr>
   \<and> length [RStr ''armor'', RFloat 5] \<le> 2
   \<and> aaf_comparison \<lparr>model_fields_set = {''name'', ''value''}, aaf_name = ''armor'',
                      aaf_value = Some 5, aaf_comparison = larger\<rparr> = larger"
proof -
  let ?data = "RList [RStr ''armor'', RFloat 5]"
  let ?m = "\<lparr>model_fields_set = {''name'', ''value''}, aaf_name = ''armor'',
             aaf_value = Some 5, aaf_comparison = larger\<rparr>"
  have v: "validate_AffixFilterModel example_env ?data = Inr ?m"
    by code_simp
  have shape: "(\<exists>s. ?data = RStr s) \<or> (\<exists>xs. ?data = RList xs \<and> length xs \<le> 2)
               \<or> (\<exists>kvs. ?data = RDict kvs \<and> map_of kvs ''comparison'' = None)"
    by simp
  from default_comparison_is_larger [OF disjI1 [OF v] shape] v
  show ?thesis by simp
qed

end
